theory Spec2Isabelle
  imports Complex_Main
begin

text \<open>
  The weather function of the board exists in several revisions, each with its own
  copy of the buoy parser, the tide client, the wave selection and the handler. This
  theory embeds the functions of js/buoys.js, util.js (part\_000),
  functions/weather.js (with part\_002, which differs in the time to live of the
  cache), functions/weather/weather.js, part\_001, part\_003 and part\_004 that the
  properties below are about, one definition per source function, named after it;
  where two revisions share a name, the definition carries the revision in its name.
\<close>

section \<open>JavaScript values\<close>

text \<open>
  A JavaScript number is an IEEE-754 double. The model keeps the three special
  values apart (\<open>NaN\<close>, \<open>+Infinity\<close>, \<open>-Infinity\<close>) and takes every finite number
  as an exact rational: the rounding error and the overflow of finite double
  arithmetic are outside the model. Strings are ASCII byte strings.
\<close>

datatype num = NaN | PInf | NInf | Fin rat

text \<open>\<open>isNaN(v)\<close> for a number.\<close>

fun isNaN :: "num \<Rightarrow> bool" where
  "isNaN NaN = True"
| "isNaN _ = False"

text \<open>
  The values the functions below build and hand to \<open>JSON.stringify\<close>: a property whose
  value is \<open>undefined\<close> is \<open>JUndefined\<close>, an object is the list of its properties in
  insertion order.
\<close>

datatype jsval =
    JUndefined
  | JNull
  | JBool bool
  | JNum num
  | JStr string
  | JArr "jsval list"
  | JObj "(string \<times> jsval) list"

text \<open>Property access \<open>o.k\<close>: \<open>undefined\<close> when the object has no such property.\<close>

fun field_of :: "string \<Rightarrow> jsval \<Rightarrow> jsval" where
  "field_of k (JObj kvs) = (case map_of kvs k of Some v \<Rightarrow> v | None \<Rightarrow> JUndefined)"
| "field_of k _ = JUndefined"

text \<open>A nullable number (\<open>null\<close> is \<open>None\<close>) as a value.\<close>

fun of_nullable :: "num option \<Rightarrow> jsval" where
  "of_nullable None = JNull"
| "of_nullable (Some n) = JNum n"

section \<open>Arithmetic helpers\<close>

text \<open>
  The remainder operator \<open>%\<close> on finite operands: the result has the sign of the
  dividend (truncated division), on numbers and on integral numbers alike.
\<close>

definition trunc :: "rat \<Rightarrow> int" where
  "trunc x = (if 0 \<le> x then \<lfloor>x\<rfloor> else \<lceil>x\<rceil>)"

definition js_rem :: "rat \<Rightarrow> rat \<Rightarrow> rat" where
  "js_rem a b = a - b * of_int (trunc (a / b))"

definition js_irem :: "int \<Rightarrow> int \<Rightarrow> int" where
  "js_irem a b = sgn a * (\<bar>a\<bar> mod \<bar>b\<bar>)"

text \<open>
  A function on finite numbers that is increasing and unbounded in both directions
  (every conversion below is one) maps \<open>NaN\<close> to \<open>NaN\<close> and each infinity to itself.
\<close>

fun lift_num :: "(rat \<Rightarrow> rat) \<Rightarrow> num \<Rightarrow> num" where
  "lift_num f (Fin x) = Fin (f x)"
| "lift_num f n = n"

section \<open>util.js (src/unnamed/part\_000)\<close>

text \<open>
  \<^verbatim>\<open>oneDec = n => (n == null ? null : Number(n.toFixed(1)))\<close>: \<open>toFixed\<close> rounds the
  magnitude to the nearest tenth, the larger one on a tie, and puts the sign back.
  \<^verbatim>\<open>round(n) = Math.round(n * 10) / 10\<close> (functions/weather.js): \<open>Math.round\<close> rounds
  to the nearest integer, towards \<open>+Infinity\<close> on a tie.
\<close>

definition toFixed1 :: "rat \<Rightarrow> rat" where
  "toFixed1 x = sgn x * of_int \<lfloor>\<bar>x\<bar> * 10 + 1 / 2\<rfloor> / 10"

definition oneDec :: "num \<Rightarrow> num" where
  "oneDec = lift_num toFixed1"

definition round1 :: "num \<Rightarrow> num" where
  "round1 = lift_num (\<lambda>n. of_int \<lfloor>n * 10 + 1 / 2\<rfloor> / 10)"

definition CtoF :: "num \<Rightarrow> num" where
  "CtoF = lift_num (\<lambda>c. (c * 9) / 5 + 32)"

definition mpsToKts :: "num \<Rightarrow> num" where
  "mpsToKts = lift_num (\<lambda>ms. ms * (194384 / 100000))"

definition dirs :: "string list" where
  "dirs = [''N'', ''NNE'', ''NE'', ''ENE'', ''E'', ''ESE'', ''SE'', ''SSE'',
           ''S'', ''SSW'', ''SW'', ''WSW'', ''W'', ''WNW'', ''NW'', ''NNW'']"

text \<open>
  The index expression \<^verbatim>\<open>Math.floor((deg % 360) / 22.5 + 0.5) % 16\<close> on a finite
  \<open>deg\<close>, shared by every variant of the conversion.
\<close>

definition cardinal_index :: "rat \<Rightarrow> int" where
  "cardinal_index deg = js_irem \<lfloor>js_rem deg 360 / (45 / 2) + 1 / 2\<rfloor> 16"

text \<open>
  \<open>dirs[i]\<close>: \<open>undefined\<close> outside the array. For \<open>NaN\<close> and the infinities
  \<open>deg % 360\<close> is \<open>NaN\<close>, so is the index, and \<open>dirs[NaN]\<close> is \<open>undefined\<close>.
\<close>

definition dirs_at :: "int \<Rightarrow> jsval" where
  "dirs_at i = (if 0 \<le> i \<and> i < int (length dirs) then JStr (dirs ! nat i) else JUndefined)"

fun dirs_lookup :: "num \<Rightarrow> jsval" where
  "dirs_lookup (Fin deg) = dirs_at (cardinal_index deg)"
| "dirs_lookup _ = JUndefined"

text \<open>
  \<open>degToCardinal\<close> of util.js:
  \<^verbatim>\<open>if (deg == null || isNaN(deg)) return null; return dirs[...]\<close>.
\<close>

fun degToCardinal_util :: "num option \<Rightarrow> jsval" where
  "degToCardinal_util None = JNull"
| "degToCardinal_util (Some d) = (if isNaN d then JNull else dirs_lookup d)"

text \<open>
  \<open>degToCardinal\<close> of functions/weather.js (and of functions/weather/weather.js and
  part\_002): \<^verbatim>\<open>if (d == null) return "--"; return dirs[...]\<close>.
\<close>

fun degToCardinal :: "num option \<Rightarrow> jsval" where
  "degToCardinal None = JStr ''--''"
| "degToCardinal (Some d) = dirs_lookup d"

text \<open>\<open>degToCard\<close> of part\_004 has no null check; its caller passes a number.\<close>

definition degToCard :: "num \<Rightarrow> jsval" where
  "degToCard d = dirs_lookup d"

section \<open>Strings\<close>

definition nl :: char where
  "nl = CHR 0x0A"

definition cr :: char where
  "cr = CHR 0x0D"

text \<open>The ASCII characters that \<open>\s\<close> and \<open>trim()\<close> take as white space.\<close>

definition is_space :: "char \<Rightarrow> bool" where
  "is_space c = (c = CHR 0x09 \<or> c = CHR 0x0A \<or> c = CHR 0x0B \<or> c = CHR 0x0C \<or>
                 c = CHR 0x0D \<or> c = CHR 0x20)"

definition trim :: "string \<Rightarrow> string" where
  "trim s = rev (dropWhile is_space (rev (dropWhile is_space s)))"

text \<open>
  \<open>s.split(/\s+/)\<close>: the pieces between the maximal runs of white space; a run at
  either end leaves an empty piece there, and the empty string gives one empty piece.
  The flag says that the scan is inside a run.
\<close>

fun split_ws_aux :: "bool \<Rightarrow> string \<Rightarrow> string \<Rightarrow> string list" where
  "split_ws_aux b cur [] = [rev cur]"
| "split_ws_aux b cur (c # cs) =
     (if is_space c
      then (if b then split_ws_aux True cur cs else rev cur # split_ws_aux True [] cs)
      else split_ws_aux False (c # cur) cs)"

definition split_ws :: "string \<Rightarrow> string list" where
  "split_ws s = split_ws_aux False [] s"

text \<open>\<open>s.split("\n")\<close> and \<open>s.split(/\r?\n/)\<close>; the latter also drops one carriage
  return that stands right before the line feed.\<close>

fun split_nl_aux :: "string \<Rightarrow> string \<Rightarrow> string list" where
  "split_nl_aux cur [] = [rev cur]"
| "split_nl_aux cur (c # cs) =
     (if c = nl then rev cur # split_nl_aux [] cs else split_nl_aux (c # cur) cs)"

definition split_nl :: "string \<Rightarrow> string list" where
  "split_nl s = split_nl_aux [] s"

fun drop_cr :: "string \<Rightarrow> string" where
  "drop_cr [] = []"
| "drop_cr (c # cs) = (if c = cr then cs else c # cs)"

fun split_lines_aux :: "string \<Rightarrow> string \<Rightarrow> string list" where
  "split_lines_aux cur [] = [rev cur]"
| "split_lines_aux cur (c # cs) =
     (if c = nl then rev (drop_cr cur) # split_lines_aux [] cs
      else split_lines_aux (c # cur) cs)"

definition split_lines :: "string \<Rightarrow> string list" where
  "split_lines s = split_lines_aux [] s"

fun is_prefix :: "string \<Rightarrow> string \<Rightarrow> bool" where
  "is_prefix [] s = True"
| "is_prefix (p # ps) [] = False"
| "is_prefix (p # ps) (c # cs) = (p = c \<and> is_prefix ps cs)"

text \<open>\<open>l.startsWith("#")\<close> and \<open>l.includes(sub)\<close>.\<close>

definition starts_hash :: "string \<Rightarrow> bool" where
  "starts_hash l = is_prefix ''#'' l"

fun str_includes :: "string \<Rightarrow> string \<Rightarrow> bool" where
  "str_includes sub [] = (sub = [])"
| "str_includes sub (c # cs) = (is_prefix sub (c # cs) \<or> str_includes sub cs)"

text \<open>\<open>header.indexOf(f)\<close>: the first position, \<open>-1\<close> when there is none.\<close>

fun indexOf :: "string list \<Rightarrow> string \<Rightarrow> int" where
  "indexOf [] f = - 1"
| "indexOf (h # hs) f =
     (if h = f then 0 else (let i = indexOf hs f in if i < 0 then - 1 else i + 1))"

text \<open>\<open>c[i]\<close>: \<open>undefined\<close> (here \<open>None\<close>) outside the array.\<close>

definition at_index :: "'a list \<Rightarrow> int \<Rightarrow> 'a option" where
  "at_index xs i = (if 0 \<le> i \<and> i < int (length xs) then Some (xs ! nat i) else None)"

subsection \<open>parseFloat\<close>

text \<open>
  \<open>parseFloat\<close> skips leading white space and reads the longest prefix that is a
  decimal literal: an optional sign, then \<open>Infinity\<close> or digits with an optional
  fraction and an optional exponent. Without such a prefix the result is \<open>NaN\<close>.
\<close>

definition is_digit :: "char \<Rightarrow> bool" where
  "is_digit c = (48 \<le> (of_char c :: nat) \<and> (of_char c :: nat) \<le> 57)"

definition digits_val :: "string \<Rightarrow> nat" where
  "digits_val ds = foldl (\<lambda>a c. a * 10 + ((of_char c :: nat) - 48)) 0 ds"

definition pow10 :: "int \<Rightarrow> rat" where
  "pow10 e = (if 0 \<le> e then 10 ^ nat e else 1 / 10 ^ nat (- e))"

definition exponent_part :: "string \<Rightarrow> int" where
  "exponent_part s =
     (case s of
        [] \<Rightarrow> 0
      | c # r \<Rightarrow>
          if c = CHR ''e'' \<or> c = CHR ''E'' then
            (let neg = is_prefix ''-'' r;
                 r' = (if is_prefix ''-'' r \<or> is_prefix ''+'' r then tl r else r);
                 ds = takeWhile is_digit r'
             in if ds = [] then 0
                else if neg then - int (digits_val ds) else int (digits_val ds))
          else 0)"

definition parseFloat :: "string \<Rightarrow> num" where
  "parseFloat s =
     (let s0 = dropWhile is_space s;
          neg = is_prefix ''-'' s0;
          s1 = (if is_prefix ''-'' s0 \<or> is_prefix ''+'' s0 then tl s0 else s0)
      in if is_prefix ''Infinity'' s1 then (if neg then NInf else PInf)
         else
           (let ip = takeWhile is_digit s1;
                r1 = dropWhile is_digit s1;
                fp = (if is_prefix ''.'' r1 then takeWhile is_digit (tl r1) else []);
                r2 = (if is_prefix ''.'' r1 then dropWhile is_digit (tl r1) else r1)
            in if ip = [] \<and> fp = [] then NaN
               else
                 (let m = of_nat (digits_val (ip @ fp)) / 10 ^ length fp * pow10 (exponent_part r2)
                  in Fin (if neg then - m else m))))"

text \<open>\<open>parseFloat(c[i])\<close>: of \<open>undefined\<close> it is \<open>NaN\<close>.\<close>

fun parseFloat_opt :: "string option \<Rightarrow> num" where
  "parseFloat_opt None = NaN"
| "parseFloat_opt (Some s) = parseFloat s"

section \<open>The outcome of an awaited call\<close>

text \<open>
  An awaited promise either rejects with a thrown value (\<open>Inl\<close>) or resolves (\<open>Inr\<close>).
  \<open>fetch\<close> resolves to a response whose \<open>ok\<close> flag tells a 2xx status; reading its
  body with \<open>text()\<close> or \<open>json()\<close> is a second await.
\<close>

datatype exn = Error string | TypeError

record 'a response =
  ok :: bool
  content :: "exn + 'a"

text \<open>\<open>await fetch(url).then(r => r.text())\<close>, whatever the status.\<close>

definition fetch_then :: "exn + 'a response \<Rightarrow> exn + 'a" where
  "fetch_then f = (case f of Inl e \<Rightarrow> Inl e | Inr r \<Rightarrow> content r)"

section \<open>Buoy parsers\<close>

record 'a buoy_row =
  WDIR :: 'a
  WSPD :: 'a
  GST :: 'a
  ATMP :: 'a
  WTMP :: 'a

text \<open>The object every variant returns; \<open>windDirCardinal\<close> comes last.\<close>

definition station :: "jsval \<Rightarrow> jsval \<Rightarrow> jsval \<Rightarrow> jsval \<Rightarrow> jsval \<Rightarrow> jsval" where
  "station a w k g d =
     JObj [(''airF'', a), (''waterF'', w), (''windKts'', k), (''gustKts'', g),
           (''windDirCardinal'', d)]"

subsection \<open>js/buoys.js: fetchBuoy\<close>

text \<open>
  The data lines are those that are not blank and do not start with \<open>#\<close>; each one is
  cut at white space and read at the fixed positions 5, 6, 7, 13 and 14.
\<close>

definition data_lines :: "string \<Rightarrow> string list" where
  "data_lines text = filter (\<lambda>l. trim l \<noteq> [] \<and> \<not> starts_hash l) (split_lines text)"

definition fixed_row :: "string \<Rightarrow> num buoy_row" where
  "fixed_row line =
     (let c = split_ws (trim line)
      in \<lparr>WDIR = parseFloat_opt (at_index c 5),
          WSPD = parseFloat_opt (at_index c 6),
          GST = parseFloat_opt (at_index c 7),
          ATMP = parseFloat_opt (at_index c 13),
          WTMP = parseFloat_opt (at_index c 14)\<rparr>)"

text \<open>
  \<^verbatim>\<open>fallback = getter => { for (const r of rows) { const v = getter(r);
     if (!isNaN(v)) return v; } return null; }\<close>
\<close>

fun fallback :: "(num buoy_row \<Rightarrow> num) \<Rightarrow> num buoy_row list \<Rightarrow> num option" where
  "fallback getter [] = None"
| "fallback getter (r # rows) =
     (let v = getter r in if \<not> isNaN v then Some v else fallback getter rows)"

text \<open>\<open>x != null ? f(x) : null\<close>\<close>

definition nullable :: "(num \<Rightarrow> num) \<Rightarrow> num option \<Rightarrow> jsval" where
  "nullable f x = (case x of None \<Rightarrow> JNull | Some n \<Rightarrow> JNum (f n))"

definition buoys_of_text :: "string \<Rightarrow> jsval" where
  "buoys_of_text text =
     (let rows = map fixed_row (data_lines text);
          airC = fallback ATMP rows;
          waterC = fallback WTMP rows;
          wspd = fallback WSPD rows;
          gust = fallback GST rows;
          wdir = fallback WDIR rows
      in station (nullable (oneDec \<circ> CtoF) airC) (nullable (oneDec \<circ> CtoF) waterC)
           (nullable (oneDec \<circ> mpsToKts) wspd) (nullable (oneDec \<circ> mpsToKts) gust)
           (degToCardinal_util wdir))"

definition fetchBuoy_buoys :: "exn + string response \<Rightarrow> exn + jsval" where
  "fetchBuoy_buoys f =
     (case f of
        Inl e \<Rightarrow> Inl e
      | Inr resp \<Rightarrow>
          if \<not> ok resp then Inl (Error ''Buoy fetch failed'')
          else (case content resp of Inl e \<Rightarrow> Inl e | Inr text \<Rightarrow> Inr (buoys_of_text text)))"

subsection \<open>functions/weather.js (and part\_002): fetchBuoy, safeFetchBuoy\<close>

text \<open>As js/buoys.js, but no data line is an error, the rounding is \<open>round\<close> and a
  missing direction is \<open>"--"\<close>.\<close>

definition weather_of_text :: "string \<Rightarrow> exn + jsval" where
  "weather_of_text text =
     (let lines = data_lines text
      in if lines = [] then Inl (Error ''No buoy rows'')
         else
           (let rows = map fixed_row lines;
                airC = fallback ATMP rows;
                waterC = fallback WTMP rows;
                wspd = fallback WSPD rows;
                gust = fallback GST rows;
                wdir = fallback WDIR rows
            in Inr (station (nullable (round1 \<circ> CtoF) airC) (nullable (round1 \<circ> CtoF) waterC)
                 (nullable (round1 \<circ> mpsToKts) wspd) (nullable (round1 \<circ> mpsToKts) gust)
                 (degToCardinal wdir))))"

definition fetchBuoy_weather :: "exn + string response \<Rightarrow> exn + jsval" where
  "fetchBuoy_weather f =
     (case f of
        Inl e \<Rightarrow> Inl e
      | Inr resp \<Rightarrow>
          if \<not> ok resp then Inl (Error ''Buoy fetch failed'')
          else (case content resp of Inl e \<Rightarrow> Inl e | Inr text \<Rightarrow> weather_of_text text))"

definition no_station :: jsval where
  "no_station = station JNull JNull JNull JNull (JStr ''--'')"

definition safeFetchBuoy :: "exn + string response \<Rightarrow> jsval" where
  "safeFetchBuoy f = (case fetchBuoy_weather f of Inl e \<Rightarrow> no_station | Inr v \<Rightarrow> v)"

subsection \<open>functions/weather/weather.js: fetchBuoy\<close>

text \<open>
  The header is the first non-blank line that starts with \<open>#\<close> and contains \<open>WDIR\<close>;
  without one, \<open>headerLine.replace\<close> throws a TypeError. \<open>replace("#", "")\<close> removes
  the first \<open>#\<close>. Each field is read at the position of its name in the header:
  \<^verbatim>\<open>get = i => (i >= 0 && i < c.length ? parseFloat(c[i]) : null)\<close>.
\<close>

definition nonblank_lines :: "string \<Rightarrow> string list" where
  "nonblank_lines text = filter (\<lambda>l. trim l \<noteq> []) (split_lines text)"

definition header_of :: "string list \<Rightarrow> string list option" where
  "header_of lines =
     (case find (\<lambda>l. starts_hash l \<and> str_includes ''WDIR'' l) lines of
        None \<Rightarrow> None
      | Some headerLine \<Rightarrow> Some (split_ws (trim (remove1 (CHR ''#'') headerLine))))"

definition get_col :: "string list \<Rightarrow> int \<Rightarrow> num option" where
  "get_col c i = (if 0 \<le> i \<and> i < int (length c) then Some (parseFloat (c ! nat i)) else None)"

definition named_row :: "string list \<Rightarrow> string list \<Rightarrow> num option buoy_row" where
  "named_row header c =
     \<lparr>WDIR = get_col c (indexOf header ''WDIR''),
      WSPD = get_col c (indexOf header ''WSPD''),
      GST = get_col c (indexOf header ''GST''),
      ATMP = get_col c (indexOf header ''ATMP''),
      WTMP = get_col c (indexOf header ''WTMP'')\<rparr>"

definition rows_of :: "string list \<Rightarrow> string list list" where
  "rows_of lines = map (\<lambda>line. split_ws (trim line)) (filter (\<lambda>l. \<not> starts_hash l) lines)"

text \<open>
  \<^verbatim>\<open>newest = fn => { for (const r of rows) { const v = fn(r);
     if (v != null && !isNaN(v)) return v; } return null; }\<close>
\<close>

fun newest :: "(num option buoy_row \<Rightarrow> num option) \<Rightarrow> num option buoy_row list \<Rightarrow> num option" where
  "newest fn [] = None"
| "newest fn (r # rows) =
     (case fn r of
        None \<Rightarrow> newest fn rows
      | Some v \<Rightarrow> if \<not> isNaN v then Some v else newest fn rows)"

definition observe :: "string list \<Rightarrow> string list list \<Rightarrow> jsval" where
  "observe header cs =
     (let rows = map (named_row header) cs;
          airC = newest ATMP rows;
          waterC = newest WTMP rows;
          wspd = newest WSPD rows;
          gust = newest GST rows;
          wdir = newest WDIR rows
      in station (nullable (oneDec \<circ> CtoF) airC) (nullable (oneDec \<circ> CtoF) waterC)
           (nullable (oneDec \<circ> mpsToKts) wspd) (nullable (oneDec \<circ> mpsToKts) gust)
           (degToCardinal wdir))"

definition header_of_text :: "string \<Rightarrow> exn + jsval" where
  "header_of_text text =
     (let lines = nonblank_lines text
      in case header_of lines of
           None \<Rightarrow> Inl TypeError
         | Some header \<Rightarrow> Inr (observe header (rows_of lines)))"

definition fetchBuoy_header :: "exn + string response \<Rightarrow> exn + jsval" where
  "fetchBuoy_header f =
     (case fetch_then f of Inl e \<Rightarrow> Inl e | Inr text \<Rightarrow> header_of_text text)"

subsection \<open>part\_003: parseBuoy\<close>

text \<open>
  The whole body stands in a \<open>try\<close> whose \<open>catch\<close> returns the fallback object with
  zero wind. The loop over the data rows returns in its first round, and without a
  data row the function returns \<open>undefined\<close>. A value is taken as missing only when
  its text is \<open>MM\<close>; \<open>parseFloat(x.toFixed(1))\<close> is \<open>oneDec\<close>.
\<close>

definition header_003 :: "string list \<Rightarrow> string list option" where
  "header_003 lines =
     (case find starts_hash lines of
        None \<Rightarrow> None
      | Some l \<Rightarrow> Some (split_ws (dropWhile is_space (tl l))))"

definition not_MM :: "string option \<Rightarrow> bool" where
  "not_MM x = (x \<noteq> Some ''MM'')"

definition first_row_003 :: "string list \<Rightarrow> string \<Rightarrow> jsval" where
  "first_row_003 header row =
     (let col = split_ws (trim row);
          wdir = at_index col (indexOf header ''WDIR'');
          wspdMS = at_index col (indexOf header ''WSPD'');
          gstMS = at_index col (indexOf header ''GST'');
          airC = at_index col (indexOf header ''ATMP'');
          wtrC = at_index col (indexOf header ''WTMP'')
      in station
           (if not_MM airC then JNum (oneDec (CtoF (parseFloat_opt airC))) else JNull)
           (if not_MM wtrC then JNum (oneDec (CtoF (parseFloat_opt wtrC))) else JNull)
           (if not_MM wspdMS then JNum (oneDec (mpsToKts (parseFloat_opt wspdMS))) else JNum (Fin 0))
           (if not_MM gstMS then JNum (oneDec (mpsToKts (parseFloat_opt gstMS))) else JNum (Fin 0))
           (if not_MM wdir then (case wdir of None \<Rightarrow> JUndefined | Some s \<Rightarrow> JStr s)
            else JStr ''--''))"

definition failed_003 :: jsval where
  "failed_003 = station JNull JNull (JNum (Fin 0)) (JNum (Fin 0)) (JStr ''--'')"

definition parseBuoy_text :: "string \<Rightarrow> jsval" where
  "parseBuoy_text raw =
     (let lines = split_nl (trim raw)
      in case header_003 lines of
           None \<Rightarrow> failed_003
         | Some header \<Rightarrow>
             (case filter (\<lambda>l. \<not> starts_hash l) lines of
                [] \<Rightarrow> JUndefined
              | row # rows \<Rightarrow> first_row_003 header row))"

definition parseBuoy :: "exn + string response \<Rightarrow> jsval" where
  "parseBuoy f = (case fetch_then f of Inl e \<Rightarrow> failed_003 | Inr raw \<Rightarrow> parseBuoy_text raw)"

section \<open>Waves\<close>

subsection \<open>part\_004 and part\_001: pickCurrentWave\<close>

text \<open>
  A stored forecast is \<open>{ timestamp, waves: [{ time, waveFt }] }\<close>. \<open>w_time\<close> holds
  \<open>new Date(w.time).getTime()\<close>, the epoch milliseconds of a valid date; \<open>w_waveFt\<close> is
  a number or \<open>null\<close>.
\<close>

record wave_point =
  w_time :: int
  w_waveFt :: "num option"

record forecast =
  f_timestamp :: int
  f_waves :: "wave_point list"

text \<open>\<open>d < diff\<close>, where \<open>diff\<close> starts as \<open>Infinity\<close> (\<open>None\<close>).\<close>

definition below :: "int \<Rightarrow> int option \<Rightarrow> bool" where
  "below d diff = (case diff of None \<Rightarrow> True | Some x \<Rightarrow> d < x)"

text \<open>
  \<^verbatim>\<open>for (const w of f.waves) { if (w.waveFt == null) continue;
     const d = Math.abs(t - now); if (d < diff) { diff = d; best = w; } }\<close>
\<close>

fun pick_loop :: "int \<Rightarrow> wave_point list \<Rightarrow> wave_point option \<Rightarrow> int option \<Rightarrow> wave_point option" where
  "pick_loop now [] best diff = best"
| "pick_loop now (w # ws) best diff =
     (if w_waveFt w = None then pick_loop now ws best diff
      else
        (let d = \<bar>w_time w - now\<bar>
         in if below d diff then pick_loop now ws (Some w) (Some d)
            else pick_loop now ws best diff))"

definition no_wave :: jsval where
  "no_wave = JObj [(''waveFt'', JNull)]"

definition pickCurrentWave :: "int \<Rightarrow> forecast option \<Rightarrow> jsval" where
  "pickCurrentWave now f =
     (case f of
        None \<Rightarrow> no_wave
      | Some fc \<Rightarrow>
          if f_waves fc = [] then no_wave
          else
            (case pick_loop now (f_waves fc) None None of
               None \<Rightarrow> no_wave
             | Some best \<Rightarrow> JObj [(''waveFt'', of_nullable (w_waveFt best))]))"

subsection \<open>functions/weather.js (and part\_002): fetchStormglass\<close>

text \<open>
  An hour of the upstream answer: \<open>h_time\<close> is \<open>new Date(h.time).getTime()\<close>, \<open>h_sg\<close> is
  \<open>h.waveHeight?.sg ?? null\<close>. A body without an \<open>hours\<close> array counts as the empty
  list, which the code treats alike (\<open>!data.hours?.length\<close>). The whole function
  stands in a \<open>try\<close> whose \<open>catch\<close> returns the null reading.
\<close>

record hour =
  h_time :: int
  h_sg :: "num option"

fun closest_loop :: "int \<Rightarrow> hour list \<Rightarrow> hour \<Rightarrow> int \<Rightarrow> hour" where
  "closest_loop now [] closest best = closest"
| "closest_loop now (h # hs) closest best =
     (let diff = \<bar>h_time h - now\<bar>
      in if diff < best then closest_loop now hs h diff else closest_loop now hs closest best)"

definition null_wave :: jsval where
  "null_wave = JObj [(''waveM'', JNull), (''waveFt'', JNull)]"

definition m_to_ft :: "num \<Rightarrow> num" where
  "m_to_ft = lift_num (\<lambda>m. m * (328084 / 100000))"

definition fetchStormglass :: "int \<Rightarrow> exn + hour list response \<Rightarrow> jsval" where
  "fetchStormglass now f =
     (case f of
        Inl e \<Rightarrow> null_wave
      | Inr resp \<Rightarrow>
          if \<not> ok resp then null_wave
          else
            (case content resp of
               Inl e \<Rightarrow> null_wave
             | Inr [] \<Rightarrow> null_wave
             | Inr (h0 # hs) \<Rightarrow>
                 (let closest = closest_loop now (h0 # hs) h0 999999999;
                      m = h_sg closest
                  in JObj [(''waveM'', of_nullable m),
                           (''waveFt'', nullable (round1 \<circ> m_to_ft) m)])))"

subsection \<open>functions/weather.js (and part\_002): getWavesCached\<close>

text \<open>
  The blob store keeps one entry \<open>{ timestamp, waves }\<close> under \<open>waves.json\<close>. The world
  of one invocation: the clock (\<open>Date.now()\<close>, taken as constant during the call), the
  entry, whether \<open>store.get\<close> and \<open>store.setJSON\<close> reject, and what each upstream
  answers. \<open>sun_times\<close> is the result of \<open>computeSunriseSunset\<close>, a pure floating-point
  computation that is not modelled and cannot throw.
\<close>

record cache_entry =
  c_timestamp :: int
  c_waves :: jsval

record prediction =
  p_t :: string
  p_v :: string
  p_type :: string

text \<open>The tide answer: a body with a \<open>predictions\<close> list, or one without (the
  upstream's error body).\<close>

datatype tide_json = NoPredictions | Predictions "prediction list"

record world =
  clock :: int
  blob :: "cache_entry option"
  blob_get_error :: "exn option"
  blob_set_error :: "exn option"
  stormglass_fetch :: "exn + hour list response"
  buoy_fetch :: "string \<Rightarrow> exn + string response"
  tides_fetch :: "exn + tide_json response"
  sun_times :: jsval

text \<open>
  \<open>getWavesCached\<close> returns the outcome and the entry the store holds afterwards. The
  time to live is four hours in functions/weather.js and twelve in part\_002.
\<close>

definition refresh_waves :: "world \<Rightarrow> (exn + jsval) \<times> cache_entry option" where
  "refresh_waves w =
     (let waves = fetchStormglass (clock w) (stormglass_fetch w)
      in case blob_set_error w of
           Some e \<Rightarrow> (Inl e, blob w)
         | None \<Rightarrow> (Inr waves, Some \<lparr>c_timestamp = clock w, c_waves = waves\<rparr>))"

definition getWavesCached :: "int \<Rightarrow> world \<Rightarrow> (exn + jsval) \<times> cache_entry option" where
  "getWavesCached ttl w =
     (case blob_get_error w of
        Some e \<Rightarrow> (Inl e, blob w)
      | None \<Rightarrow>
          (case blob w of
             None \<Rightarrow> refresh_waves w
           | Some cached \<Rightarrow>
               if clock w - c_timestamp cached < ttl then (Inr (c_waves cached), blob w)
               else refresh_waves w))"

definition four_hours :: int where
  "four_hours = 4 * 60 * 60 * 1000"

definition twelve_hours :: int where
  "twelve_hours = 12 * 60 * 60 * 1000"

section \<open>Tides\<close>

definition prediction_obj :: "prediction \<Rightarrow> jsval" where
  "prediction_obj p = JObj [(''t'', JStr (p_t p)), (''v'', JStr (p_v p)), (''type'', JStr (p_type p))]"

subsection \<open>functions/weather.js: fetchTides, safeFetchTides\<close>

text \<open>
  \<^verbatim>\<open>low: data.predictions.find(p => p.type === "L") ?? null\<close>, and the same for
  \<open>high\<close>; without a list \<open>data.predictions.find\<close> throws a TypeError. The status of
  the response is not looked at.
\<close>

definition find_type :: "string \<Rightarrow> prediction list \<Rightarrow> prediction option" where
  "find_type ty ps = find (\<lambda>p. p_type p = ty) ps"

definition fetchTides :: "exn + tide_json response \<Rightarrow> exn + jsval" where
  "fetchTides f =
     (case fetch_then f of
        Inl e \<Rightarrow> Inl e
      | Inr NoPredictions \<Rightarrow> Inl TypeError
      | Inr (Predictions ps) \<Rightarrow>
          Inr (JObj [(''low'', case find_type ''L'' ps of None \<Rightarrow> JNull | Some p \<Rightarrow> prediction_obj p),
                     (''high'', case find_type ''H'' ps of None \<Rightarrow> JNull | Some p \<Rightarrow> prediction_obj p)]))"

definition safeFetchTides :: "exn + tide_json response \<Rightarrow> jsval" where
  "safeFetchTides f =
     (case fetchTides f of
        Inl e \<Rightarrow> JObj [(''low'', JNull), (''high'', JNull)]
      | Inr v \<Rightarrow> v)"

subsection \<open>functions/weather/weather.js: the tides block of the handler\<close>

text \<open>
  A JavaScript number is an IEEE 754 double. \<open>to_double x\<close> is the double nearest to
  the rational \<open>x\<close>: 53 significant bits, a tie going to the even significand, the
  spacing \<open>2^(-1074)\<close> of the subnormal numbers below \<open>2^(-1022)\<close>, and an infinity when
  the rounded magnitude reaches \<open>2^1024\<close>. \<open>binade x\<close> is the exponent \<open>k\<close> with
  \<open>2^k \<le> x < 2^(k+1)\<close>. The sign of a zero is not kept; \<open>toFixed\<close> prints both zeros
  alike. \<open>parseFloat\<close> is taken to give the double nearest to the decimal it reads, as
  the engines do: \<open>as_double (parseFloat s)\<close>.
\<close>

definition pow2 :: "int \<Rightarrow> rat" where
  "pow2 e = (if 0 \<le> e then 2 ^ nat e else 1 / 2 ^ nat (- e))"

function ilog2 :: "int \<Rightarrow> nat" where
  "ilog2 n = (if n < 2 then 0 else Suc (ilog2 (n div 2)))"
  by pat_completeness auto
termination
  by (relation "measure nat") auto

declare ilog2.simps [simp del]

definition binade :: "rat \<Rightarrow> int" where
  "binade x =
     (if 1 \<le> x then int (ilog2 \<lfloor>x\<rfloor>)
      else - int (ilog2 (\<lceil>1 / x\<rceil> - 1)) - 1)"

definition round_even :: "rat \<Rightarrow> int" where
  "round_even r =
     (let f = \<lfloor>r\<rfloor>; d = r - of_int f
      in if d < 1 / 2 then f else if 1 / 2 < d then f + 1 else if even f then f else f + 1)"

definition to_double :: "rat \<Rightarrow> num" where
  "to_double x =
     (if x = 0 then Fin 0
      else
        (let e = max (binade \<bar>x\<bar> - 52) (- 1074);
             d = of_int (round_even (\<bar>x\<bar> / pow2 e)) * pow2 e
         in if pow2 1024 \<le> d then (if x < 0 then NInf else PInf)
            else Fin (if x < 0 then - d else d)))"





text \<open>
  \<^verbatim>\<open>const toHM = (d) => { const h = d.getHours().toString().padStart(2, "0");
    const m = d.getMinutes().toString().padStart(2, "0"); return `${h}:${m}`; };\<close>
  The argument is the pair \<open>getHours()\<close>, \<open>getMinutes()\<close> of the date, \<open>None\<close> for an
  invalid date, whose hours and minutes are \<open>NaN\<close>.
\<close>

definition padStart2 :: "string \<Rightarrow> string" where
  "padStart2 s = replicate (2 - length s) (CHR ''0'') @ s"




subsection \<open>part\_001: getNoaaTides\<close>

text \<open>\<open>s.split(sep)\<close> for a one-character separator.\<close>

fun split_char_aux :: "char \<Rightarrow> string \<Rightarrow> string \<Rightarrow> string list" where
  "split_char_aux sep cur [] = [rev cur]"
| "split_char_aux sep cur (c # cs) =
     (if c = sep then rev cur # split_char_aux sep [] cs else split_char_aux sep (c # cur) cs)"

definition split_char :: "char \<Rightarrow> string \<Rightarrow> string list" where
  "split_char sep s = split_char_aux sep [] s"

text \<open>
  The loop assigns \<open>high\<close> and \<open>low\<close> at every prediction of the type, so the last one
  of each type stays. A time text without a blank, or without a colon after it,
  makes \<open>timeStr.split\<close> or \<open>mm.padStart\<close> throw a TypeError.
\<close>

fun noaa_loop :: "prediction list \<Rightarrow> jsval \<Rightarrow> jsval \<Rightarrow> exn + jsval \<times> jsval" where
  "noaa_loop [] high low = Inr (high, low)"
| "noaa_loop (p # ps) high low =
     (case at_index (split_char (CHR '' '') (p_t p)) 1 of
        None \<Rightarrow> Inl TypeError
      | Some timeStr \<Rightarrow>
          (let hm = split_char (CHR '':'') timeStr
           in case (at_index hm 0, at_index hm 1) of
                (Some hh, Some mm) \<Rightarrow>
                  (let formatted = JObj [(''time'', JStr (padStart2 hh @ '':'' @ padStart2 mm)),
                                         (''v'', JNum (parseFloat (p_v p)))]
                   in noaa_loop ps (if p_type p = ''H'' then formatted else high)
                        (if p_type p = ''L'' then formatted else low))
              | _ \<Rightarrow> Inl TypeError))"

definition getNoaaTides :: "exn + tide_json response \<Rightarrow> exn + jsval" where
  "getNoaaTides f =
     (case f of
        Inl e \<Rightarrow> Inl e
      | Inr res \<Rightarrow>
          if \<not> ok res then Inr (JObj [(''high'', JNull), (''low'', JNull)])
          else
            (case content res of
               Inl e \<Rightarrow> Inl e
             | Inr NoPredictions \<Rightarrow> Inr (JObj [(''high'', JNull), (''low'', JNull)])
             | Inr (Predictions ps) \<Rightarrow>
                 (case noaa_loop ps JNull JNull of
                    Inl e \<Rightarrow> Inl e
                  | Inr (high, low) \<Rightarrow> Inr (JObj [(''high'', high), (''low'', low)]))))"

section \<open>Handlers\<close>

record reply =
  statusCode :: nat
  headers :: "(string \<times> string) list"
  body :: jsval

text \<open>\<open>body\<close> is the object handed to \<open>JSON.stringify\<close>. \<open>String(err)\<close>:\<close>

fun string_of_exn :: "exn \<Rightarrow> string" where
  "string_of_exn (Error m) = ''Error: '' @ m"
| "string_of_exn TypeError = ''TypeError''"

subsection \<open>functions/weather.js: handler\<close>

text \<open>
  The awaits run one after the other inside one \<open>try\<close>; only \<open>getWavesCached\<close> is not
  wrapped, and the \<open>catch\<close> answers with status 500. The handler returns the reply
  and the entry the store holds afterwards.
\<close>

definition handler :: "world \<Rightarrow> reply \<times> cache_entry option" where
  "handler w =
     (case getWavesCached four_hours w of
        (Inl err, st) \<Rightarrow>
          (\<lparr>statusCode = 500, headers = [],
            body = JObj [(''error'', JStr (string_of_exn err)),
                         (''gulf'', JNull), (''bay'', JNull),
                         (''waves'', JObj [(''waveFt'', JNull), (''waveM'', JNull)]),
                         (''sun'', JObj [(''sunrise'', JNull), (''sunset'', JNull)]),
                         (''tides'', JObj [(''low'', JNull), (''high'', JNull)])]\<rparr>, st)
      | (Inr waves, st) \<Rightarrow>
          (let gulf = safeFetchBuoy (buoy_fetch w ''BZST2'');
               bay = safeFetchBuoy (buoy_fetch w ''PCGT2'');
               sun = sun_times w;
               tides = safeFetchTides (tides_fetch w)
           in (\<lparr>statusCode = 200,
                headers = [(''Access-Control-Allow-Origin'', ''*''),
                           (''Content-Type'', ''application/json'')],
                body = JObj [(''gulf'', gulf), (''bay'', bay), (''waves'', waves),
                             (''sun'', sun), (''tides'', tides)]\<rparr>, st)))"

subsection \<open>part\_001: exports.handler\<close>

text \<open>
  \<open>Promise.all\<close> over five sources; \<open>safeBuoy\<close> never rejects, the other three are not
  wrapped. The world gives the outcome of \<open>fetchBuoy(id)\<close>, of
  \<open>getStormglassForecast()\<close> and of \<open>getSunData()\<close> as they are, and the tide answer
  that \<open>getNoaaTides\<close> reads. When several sources reject, the model takes the first
  in the order of the array. Both the \<open>try\<close> and the \<open>catch\<close> answer with status 200.
\<close>

record world_001 =
  clock_001 :: int
  buoy_001 :: "string \<Rightarrow> exn + jsval"
  forecast_001 :: "exn + forecast"
  tides_001 :: "exn + tide_json response"
  sun_001 :: "exn + jsval"

definition safeBuoy :: "exn + jsval \<Rightarrow> jsval" where
  "safeBuoy r = (case r of Inl e \<Rightarrow> no_station | Inr v \<Rightarrow> v)"

definition json_headers :: "(string \<times> string) list" where
  "json_headers = [(''Access-Control-Allow-Origin'', ''*''), (''Content-Type'', ''application/json'')]"

definition fatal_001 :: "exn \<Rightarrow> reply" where
  "fatal_001 err =
     \<lparr>statusCode = 200, headers = json_headers,
      body = JObj [(''error'', JStr (string_of_exn err)),
                   (''gulf'', JNull), (''bay'', JNull),
                   (''waves'', JObj [(''waveFt'', JNull)]),
                   (''tides'', JObj [(''high'', JNull), (''low'', JNull)]),
                   (''sun'', JObj [(''sunrise'', JNull), (''sunset'', JNull)]),
                   (''usharborsOutdated'', JBool True)]\<rparr>"

definition handler_001 :: "world_001 \<Rightarrow> reply" where
  "handler_001 w =
     (let gulf = safeBuoy (buoy_001 w ''BZST2'');
          bay = safeBuoy (buoy_001 w ''PCGT2'')
      in case forecast_001 w of
           Inl err \<Rightarrow> fatal_001 err
         | Inr sg \<Rightarrow>
             (case getNoaaTides (tides_001 w) of
                Inl err \<Rightarrow> fatal_001 err
              | Inr tides \<Rightarrow>
                  (case sun_001 w of
                     Inl err \<Rightarrow> fatal_001 err
                   | Inr sun \<Rightarrow>
                       \<lparr>statusCode = 200, headers = json_headers,
                        body = JObj [(''gulf'', gulf), (''bay'', bay),
                                     (''waves'', pickCurrentWave (clock_001 w) (Some sg)),
                                     (''tides'', tides), (''sun'', sun),
                                     (''usharborsOutdated'', JBool False)]\<rparr>)))"

section \<open>Notions of the specification and sample payloads\<close>

text \<open>
  The rows are newest first. \<open>first_numeric g rows r\<close>: \<open>r\<close> is the newest row in which
  the field \<open>g\<close> is present and numeric.
\<close>

definition first_numeric :: "(num buoy_row \<Rightarrow> num) \<Rightarrow> num buoy_row list \<Rightarrow> num buoy_row \<Rightarrow> bool" where
  "first_numeric g rows r \<longleftrightarrow>
     (\<exists>pre post. rows = pre @ r # post \<and> (\<forall>q \<in> set pre. isNaN (g q)) \<and> \<not> isNaN (g r))"

text \<open>The columns of a header or of a row, rearranged: position \<open>j\<close> gets column \<open>p ! j\<close>.\<close>

definition permute :: "nat list \<Rightarrow> 'a list \<Rightarrow> 'a list" where
  "permute p xs = map (\<lambda>i. xs ! i) p"

text \<open>
  A feed with fifteen columns and two data rows; the newest row has no air
  temperature. \<open>swapped_feed\<close> is the same feed with its last two columns exchanged.
\<close>

definition sample_header :: string where
  "sample_header = ''#YY MM DD hh mm WDIR WSPD GST WVHT DPD APD MWD PRES ATMP WTMP''"

definition sample_newest :: string where
  "sample_newest = ''2025 12 07 20 30 120 5.0 7.0 MM MM MM MM 1015.2 MM 22.4''"

definition sample_older :: string where
  "sample_older = ''2025 12 07 20 20 130 4.0 6.0 MM MM MM MM 1015.0 20.5 22.3''"

definition sample_feed :: string where
  "sample_feed = sample_header @ [nl] @ sample_newest @ [nl] @ sample_older @ [nl]"

definition swapped_feed :: string where
  "swapped_feed =
     ''#YY MM DD hh mm WDIR WSPD GST WVHT DPD APD MWD PRES WTMP ATMP'' @ [nl] @
     ''2025 12 07 20 30 120 5.0 7.0 MM MM MM MM 1015.2 22.4 MM'' @ [nl] @
     ''2025 12 07 20 20 130 4.0 6.0 MM MM MM MM 1015.0 22.3 20.5'' @ [nl]"

definition swap_last_two :: "nat list" where
  "swap_last_two = [0, 1, 2, 3, 4, 5, 6, 7, 8, 9, 10, 11, 12, 14, 13]"

text \<open>A feed whose only data row carries the sentinel for wind speed and gust.\<close>

definition no_wind_row :: string where
  "no_wind_row = ''2025 12 07 20 30 120 MM MM MM MM MM MM 1015.2 21.0 22.4''"

definition no_wind_feed :: string where
  "no_wind_feed = sample_header @ [nl] @ no_wind_row @ [nl]"

definition sample_rows :: "string list list" where
  "sample_rows =
     [[''2025'', ''12'', ''07'', ''20'', ''30'', ''120'', ''5.0'', ''7.0'', ''MM'', ''MM'', ''MM'',
       ''MM'', ''1015.2'', ''MM'', ''22.4''],
      [''2025'', ''12'', ''07'', ''20'', ''20'', ''130'', ''4.0'', ''6.0'', ''MM'', ''MM'', ''MM'',
       ''MM'', ''1015.0'', ''20.5'', ''22.3'']]"

definition sample_names :: "string list" where
  "sample_names =
     [''YY'', ''MM'', ''DD'', ''hh'', ''mm'', ''WDIR'', ''WSPD'', ''GST'', ''WVHT'', ''DPD'',
      ''APD'', ''MWD'', ''PRES'', ''ATMP'', ''WTMP'']"

text \<open>
  \<open>nearest_first now ws i\<close>: among the points of \<open>ws\<close> with a height, the one at \<open>i\<close>
  is nearest in time to \<open>now\<close>, and strictly nearer than every such point before it.
\<close>

definition nearest_first :: "int \<Rightarrow> wave_point list \<Rightarrow> nat \<Rightarrow> bool" where
  "nearest_first now ws i \<longleftrightarrow>
     i < length ws \<and> w_waveFt (ws ! i) \<noteq> None \<and>
     (\<forall>j < length ws. w_waveFt (ws ! j) \<noteq> None \<longrightarrow>
        \<bar>w_time (ws ! i) - now\<bar> \<le> \<bar>w_time (ws ! j) - now\<bar>) \<and>
     (\<forall>j < i. w_waveFt (ws ! j) \<noteq> None \<longrightarrow>
        \<bar>w_time (ws ! i) - now\<bar> < \<bar>w_time (ws ! j) - now\<bar>)"

text \<open>The upstream fetch failed: \<open>fetch\<close> rejected, the status was not 2xx, or the body
  could not be read.\<close>

definition upstream_failed :: "exn + 'a response \<Rightarrow> bool" where
  "upstream_failed f = (case f of Inl e \<Rightarrow> True | Inr r \<Rightarrow> \<not> ok r \<or> isl (content r))"

text \<open>The cache entry is stale (or absent) for the time to live \<open>ttl\<close>.\<close>

definition stale :: "int \<Rightarrow> world \<Rightarrow> bool" where
  "stale ttl w = (case blob w of None \<Rightarrow> True | Some c \<Rightarrow> \<not> clock w - c_timestamp c < ttl)"

text \<open>\<open>Object.keys\<close> of a value.\<close>

fun keys :: "jsval \<Rightarrow> string list" where
  "keys (JObj kvs) = map fst kvs"
| "keys v = []"

text \<open>The invariant of the loop of \<open>pickCurrentWave\<close> after the points \<open>pre\<close>.\<close>

definition loop_inv :: "int \<Rightarrow> wave_point list \<Rightarrow> wave_point option \<Rightarrow> int option \<Rightarrow> bool" where
  "loop_inv now pre best diff \<longleftrightarrow>
     (best = None \<and> diff = None \<and> (\<forall>x \<in> set pre. w_waveFt x = None)) \<or>
     (\<exists>i. nearest_first now pre i \<and> best = Some (pre ! i) \<and>
          diff = Some \<bar>w_time (pre ! i) - now\<bar>)"

text \<open>Two points, two hours before and one hour after the time 0.\<close>

definition two_points :: forecast where
  "two_points = \<lparr>f_timestamp = 0,
     f_waves = [\<lparr>w_time = - 7200000, w_waveFt = Some (Fin 3)\<rparr>,
                \<lparr>w_time = 3600000, w_waveFt = Some (Fin 4)\<rparr>]\<rparr>"





text \<open>
  Worlds of functions/weather.js. In \<open>tide_down\<close> the cache is fresh, both buoys
  answer and the tide fetch rejects; in \<open>store_down\<close> the blob store rejects the read;
  in \<open>stale_world\<close> the entry is four hours old and the forecast fetch rejects.
\<close>

definition cached_waves :: jsval where
  "cached_waves = JObj [(''waveM'', JNum (Fin 1)), (''waveFt'', JNum (Fin (33 / 10)))]"

definition tide_down :: world where
  "tide_down =
     \<lparr>clock = 1000,
      blob = Some \<lparr>c_timestamp = 0, c_waves = cached_waves\<rparr>,
      blob_get_error = None,
      blob_set_error = None,
      stormglass_fetch = Inr \<lparr>ok = True, content = Inr [\<lparr>h_time = 0, h_sg = Some (Fin 1)\<rparr>]\<rparr>,
      buoy_fetch = (\<lambda>id. Inr \<lparr>ok = True, content = Inr sample_feed\<rparr>),
      tides_fetch = Inl (Error ''network''),
      sun_times = JObj [(''sunrise'', JStr ''07:03 AM''), (''sunset'', JStr ''05:47 PM'')]\<rparr>"

definition store_down :: world where
  "store_down = tide_down\<lparr>blob_get_error := Some (Error ''blob store unavailable'')\<rparr>"

definition stale_world :: world where
  "stale_world = tide_down\<lparr>clock := 14400000, stormglass_fetch := Inl (Error ''network'')\<rparr>"

text \<open>The same world with a store that rejects the read, and one that rejects the write.\<close>

definition stale_get_down :: world where
  "stale_get_down = stale_world\<lparr>blob_get_error := Some (Error ''blob store unavailable'')\<rparr>"

definition stale_set_down :: world where
  "stale_set_down = stale_world\<lparr>blob_set_error := Some (Error ''blob store unavailable'')\<rparr>"

text \<open>A world of part\_001 in which both buoys and the forecast answer and the tide
  fetch rejects.\<close>

definition tide_down_001 :: world_001 where
  "tide_down_001 =
     \<lparr>clock_001 = 0,
      buoy_001 = (\<lambda>id. Inr (station (JNum (Fin 70)) (JNum (Fin 72)) (JNum (Fin 10)) (JNum (Fin 14))
                              (JStr ''ESE''))),
      forecast_001 = Inr two_points,
      tides_001 = Inl (Error ''network''),
      sun_001 = Inr (JObj [(''sunrise'', JStr ''07:03''), (''sunset'', JStr ''17:47'')])\<rparr>"

section \<open>Theorems\<close>

subsection \<open>The compass conversion\<close>

lemma js_rem_bounds:
  assumes "0 \<le> a" and "0 < b"
  shows "0 \<le> js_rem a b \<and> js_rem a b < b"
proof -
  let ?q = "\<lfloor>a / b\<rfloor>"
  from assms have nn: "0 \<le> a / b" by simp
  have lo: "of_int ?q \<le> a / b" by (rule of_int_floor_le)
  have hi: "a / b < of_int ?q + 1" by linarith
  have "of_int ?q * b \<le> a / b * b"
    by (rule mult_right_mono [OF lo]) (use assms in simp)
  with assms have l: "b * of_int ?q \<le> a" by (simp add: mult.commute)
  have "a / b * b < (of_int ?q + 1) * b"
    by (rule mult_strict_right_mono [OF hi assms(2)])
  with assms have h: "a < b * (of_int ?q + 1)" by (simp add: mult.commute)
  from l h show ?thesis
    using nn by (simp add: js_rem_def trunc_def algebra_simps)
qed

lemma js_irem_16:
  assumes "0 \<le> n" and "n \<le> 16"
  shows "0 \<le> js_irem n 16 \<and> js_irem n 16 \<le> 15"
proof (cases "n = 0")
  case True
  then show ?thesis by (simp add: js_irem_def)
next
  case False
  with assms have "sgn n = 1" by simp
  moreover have "0 \<le> n mod 16 \<and> n mod 16 < 16" by simp
  ultimately show ?thesis using assms by (simp add: js_irem_def)
qed

lemma cardinal_index_range:
  assumes "0 \<le> d"
  shows "0 \<le> cardinal_index d \<and> cardinal_index d \<le> 15"
proof -
  let ?r = "js_rem d 360"
  let ?x = "?r / (45 / 2) + 1 / 2"
  from assms have r: "0 \<le> ?r \<and> ?r < 360" by (intro js_rem_bounds) simp_all
  then have "0 \<le> ?x" by simp
  then have lo: "0 \<le> \<lfloor>?x\<rfloor>" by simp
  from r have "?x < 17" by simp
  then have "\<lfloor>?x\<rfloor> < 17" by (simp add: floor_less_iff)
  then have hi: "\<lfloor>?x\<rfloor> \<le> 16" by simp
  from js_irem_16 [OF lo hi] show ?thesis by (simp add: cardinal_index_def)
qed

lemma dirs_at_in_range:
  assumes "0 \<le> i" and "i \<le> 15"
  shows "\<exists>s. s \<in> set dirs \<and> dirs_at i = JStr s"
proof -
  have len: "length dirs = 16" by (simp add: dirs_def)
  with assms have "nat i < length dirs" by simp
  then have "dirs ! nat i \<in> set dirs" by (rule nth_mem)
  moreover from assms len have "dirs_at i = JStr (dirs ! nat i)" by (simp add: dirs_at_def)
  ultimately show ?thesis by blast
qed

text \<open>
  Claim C10. For a finite degree value \<open>d \<ge> 0\<close> the index
  \<open>floor((d mod 360) / 22.5 + 0.5) mod 16\<close> lies in \<open>[0, 15]\<close>, so each variant of the
  conversion returns one of the sixteen compass strings. The hypothesis is needed: at
  \<open>d = -30\<close> the remainder is negative, the index is \<open>-1\<close> and the array access
  gives \<open>undefined\<close>.
\<close>

theorem degToCardinal_index_in_bounds:
  "(0 \<le> d \<longrightarrow>
      0 \<le> cardinal_index d \<and> cardinal_index d \<le> 15 \<and>
      (\<exists>s. s \<in> set dirs \<and> degToCardinal (Some (Fin d)) = JStr s \<and>
           degToCardinal_util (Some (Fin d)) = JStr s \<and> degToCard (Fin d) = JStr s)) \<and>
   cardinal_index (- 30) = - 1 \<and> degToCardinal (Some (Fin (- 30))) = JUndefined"
proof (intro conjI impI)
  assume d: "0 \<le> d"
  from cardinal_index_range [OF d] show "0 \<le> cardinal_index d" and "cardinal_index d \<le> 15"
    by simp_all
  from cardinal_index_range [OF d] dirs_at_in_range [of "cardinal_index d"]
  show "\<exists>s. s \<in> set dirs \<and> degToCardinal (Some (Fin d)) = JStr s \<and>
           degToCardinal_util (Some (Fin d)) = JStr s \<and> degToCard (Fin d) = JStr s"
    by (auto simp: degToCard_def)
next
  show i: "cardinal_index (- 30) = - 1" by code_simp
  show "degToCardinal (Some (Fin (- 30))) = JUndefined" by code_simp
qed

text \<open>The bound at \<open>d = 90\<close>.\<close>

theorem degToCardinal_index_in_bounds_witness:
  "(0::rat) \<le> 90 \<and> 0 \<le> cardinal_index 90 \<and> cardinal_index 90 \<le> 15 \<and>
   (\<exists>s. s \<in> set dirs \<and> degToCardinal (Some (Fin 90)) = JStr s)"
  using degToCardinal_index_in_bounds [of 90] by auto

text \<open>
  Claim C5 says that \<open>degToCardinal(11.25)\<close> is \<open>"N"\<close>. At 11.25 the quotient is
  exactly 0.5, the sum is 1 and the index is 1: the result is \<open>"NNE"\<close>.
\<close>

theorem degToCardinal_boundary_counterexample:
  "degToCardinal (Some (Fin (45 / 4))) \<noteq> JStr ''N'' \<and>
   degToCardinal_util (Some (Fin (45 / 4))) \<noteq> JStr ''N''"
  by code_simp

text \<open>
  Claim C5, amended. The conversion computes the index
  \<open>floor((deg mod 360) / 22.5 + 0.5) mod 16\<close> into the sixteen-point list that starts at
  \<open>N\<close>; \<open>degToCardinal(0) = "N"\<close>, \<open>degToCardinal(11.25) = "NNE"\<close>,
  \<open>degToCardinal(348.75) = "N"\<close> and \<open>degToCardinal(180) = "S"\<close>, in functions/weather.js
  and in util.js alike.
\<close>

theorem degToCardinal_values:
  "cardinal_index deg = js_irem \<lfloor>js_rem deg 360 / (45 / 2) + 1 / 2\<rfloor> 16 \<and>
   dirs ! 0 = ''N'' \<and> length dirs = 16 \<and>
   degToCardinal (Some (Fin 0)) = JStr ''N'' \<and>
   degToCardinal (Some (Fin (45 / 4))) = JStr ''NNE'' \<and>
   degToCardinal (Some (Fin (1395 / 4))) = JStr ''N'' \<and>
   degToCardinal (Some (Fin 180)) = JStr ''S'' \<and>
   degToCardinal_util (Some (Fin 0)) = JStr ''N'' \<and>
   degToCardinal_util (Some (Fin (45 / 4))) = JStr ''NNE'' \<and>
   degToCardinal_util (Some (Fin (1395 / 4))) = JStr ''N'' \<and>
   degToCardinal_util (Some (Fin 180)) = JStr ''S''"
proof -
  have "degToCardinal (Some (Fin 0)) = JStr ''N''" by code_simp
  moreover have "degToCardinal (Some (Fin (45 / 4))) = JStr ''NNE''" by code_simp
  moreover have "degToCardinal (Some (Fin (1395 / 4))) = JStr ''N''" by code_simp
  moreover have "degToCardinal (Some (Fin 180)) = JStr ''S''" by code_simp
  moreover have "degToCardinal_util (Some (Fin 0)) = JStr ''N''" by code_simp
  moreover have "degToCardinal_util (Some (Fin (45 / 4))) = JStr ''NNE''" by code_simp
  moreover have "degToCardinal_util (Some (Fin (1395 / 4))) = JStr ''N''" by code_simp
  moreover have "degToCardinal_util (Some (Fin 180)) = JStr ''S''" by code_simp
  ultimately show ?thesis by (simp add: cardinal_index_def dirs_def)
qed

subsection \<open>The per-field fallback\<close>

lemma station_fields:
  "field_of ''airF'' (station a w k g d) = a"
  "field_of ''waterF'' (station a w k g d) = w"
  "field_of ''windKts'' (station a w k g d) = k"
  "field_of ''gustKts'' (station a w k g d) = g"
  "field_of ''windDirCardinal'' (station a w k g d) = d"
  by (simp_all add: station_def)

lemma fallback_first:
  "(\<forall>q \<in> set pre. isNaN (g q)) \<Longrightarrow> \<not> isNaN (g r) \<Longrightarrow> fallback g (pre @ r # post) = Some (g r)"
  by (induction pre) simp_all

lemma fallback_none:
  "(\<forall>q \<in> set rows. isNaN (g q)) \<Longrightarrow> fallback g rows = None"
  by (induction rows) simp_all

lemma fallback_first_numeric:
  "first_numeric g rows r \<Longrightarrow> fallback g rows = Some (g r)"
  unfolding first_numeric_def by (auto simp: fallback_first)

lemma fetchBuoy_buoys_ok:
  "ok resp \<Longrightarrow> content resp = Inr text \<Longrightarrow> fetchBuoy_buoys (Inr resp) = Inr (buoys_of_text text)"
  by (simp add: fetchBuoy_buoys_def)

text \<open>
  Claim C3, amended. In js/buoys.js, for every payload and each of the five fields on
  its own, \<open>fetchBuoy\<close> takes the value of the newest data row in which that field is
  numeric (converted and rounded), and \<open>null\<close> when no row has one; so a newest row
  without an air temperature leaves the other four fields with the newest row and
  takes the air temperature from the older row. (\<open>parseBuoy\<close> of part\_003 reads the
  newest row only.)
\<close>

theorem fetchBuoy_buoys_per_field_fallback:
  assumes "ok resp" and "content resp = Inr text"
    and "rows = map fixed_row (data_lines text)"
  shows "\<exists>obs. fetchBuoy_buoys (Inr resp) = Inr obs \<and>
    (\<forall>r. first_numeric ATMP rows r \<longrightarrow> field_of ''airF'' obs = JNum (oneDec (CtoF (ATMP r)))) \<and>
    (\<forall>r. first_numeric WTMP rows r \<longrightarrow> field_of ''waterF'' obs = JNum (oneDec (CtoF (WTMP r)))) \<and>
    (\<forall>r. first_numeric WSPD rows r \<longrightarrow> field_of ''windKts'' obs = JNum (oneDec (mpsToKts (WSPD r)))) \<and>
    (\<forall>r. first_numeric GST rows r \<longrightarrow> field_of ''gustKts'' obs = JNum (oneDec (mpsToKts (GST r)))) \<and>
    (\<forall>r. first_numeric WDIR rows r \<longrightarrow>
       field_of ''windDirCardinal'' obs = degToCardinal_util (Some (WDIR r))) \<and>
    ((\<forall>q \<in> set rows. isNaN (ATMP q)) \<longrightarrow> field_of ''airF'' obs = JNull) \<and>
    ((\<forall>q \<in> set rows. isNaN (WTMP q)) \<longrightarrow> field_of ''waterF'' obs = JNull) \<and>
    ((\<forall>q \<in> set rows. isNaN (WSPD q)) \<longrightarrow> field_of ''windKts'' obs = JNull) \<and>
    ((\<forall>q \<in> set rows. isNaN (GST q)) \<longrightarrow> field_of ''gustKts'' obs = JNull) \<and>
    ((\<forall>q \<in> set rows. isNaN (WDIR q)) \<longrightarrow> field_of ''windDirCardinal'' obs = JNull)"
proof -
  let ?obs = "buoys_of_text text"
  have run: "fetchBuoy_buoys (Inr resp) = Inr ?obs"
    using assms(1,2) by (rule fetchBuoy_buoys_ok)
  have first: "field_of ''airF'' ?obs = nullable (oneDec \<circ> CtoF) (fallback ATMP rows)"
    "field_of ''waterF'' ?obs = nullable (oneDec \<circ> CtoF) (fallback WTMP rows)"
    "field_of ''windKts'' ?obs = nullable (oneDec \<circ> mpsToKts) (fallback WSPD rows)"
    "field_of ''gustKts'' ?obs = nullable (oneDec \<circ> mpsToKts) (fallback GST rows)"
    "field_of ''windDirCardinal'' ?obs = degToCardinal_util (fallback WDIR rows)"
    by (simp_all add: buoys_of_text_def Let_def station_fields assms(3))
  have "\<forall>r. first_numeric ATMP rows r \<longrightarrow> field_of ''airF'' ?obs = JNum (oneDec (CtoF (ATMP r)))"
    by (simp add: first fallback_first_numeric nullable_def)
  moreover have "\<forall>r. first_numeric WTMP rows r \<longrightarrow> field_of ''waterF'' ?obs = JNum (oneDec (CtoF (WTMP r)))"
    by (simp add: first fallback_first_numeric nullable_def)
  moreover have "\<forall>r. first_numeric WSPD rows r \<longrightarrow> field_of ''windKts'' ?obs = JNum (oneDec (mpsToKts (WSPD r)))"
    by (simp add: first fallback_first_numeric nullable_def)
  moreover have "\<forall>r. first_numeric GST rows r \<longrightarrow> field_of ''gustKts'' ?obs = JNum (oneDec (mpsToKts (GST r)))"
    by (simp add: first fallback_first_numeric nullable_def)
  moreover have "\<forall>r. first_numeric WDIR rows r \<longrightarrow>
       field_of ''windDirCardinal'' ?obs = degToCardinal_util (Some (WDIR r))"
    by (simp add: first fallback_first_numeric)
  moreover have "(\<forall>q \<in> set rows. isNaN (ATMP q)) \<longrightarrow> field_of ''airF'' ?obs = JNull"
    by (simp add: first fallback_none nullable_def)
  moreover have "(\<forall>q \<in> set rows. isNaN (WTMP q)) \<longrightarrow> field_of ''waterF'' ?obs = JNull"
    by (simp add: first fallback_none nullable_def)
  moreover have "(\<forall>q \<in> set rows. isNaN (WSPD q)) \<longrightarrow> field_of ''windKts'' ?obs = JNull"
    by (simp add: first fallback_none nullable_def)
  moreover have "(\<forall>q \<in> set rows. isNaN (GST q)) \<longrightarrow> field_of ''gustKts'' ?obs = JNull"
    by (simp add: first fallback_none nullable_def)
  moreover have "(\<forall>q \<in> set rows. isNaN (WDIR q)) \<longrightarrow> field_of ''windDirCardinal'' ?obs = JNull"
    by (simp add: first fallback_none)
  ultimately show ?thesis using run by blast
qed

lemma sample_feed_rows:
  "map fixed_row (data_lines sample_feed) =
     [\<lparr>WDIR = Fin 120, WSPD = Fin 5, GST = Fin 7, ATMP = NaN, WTMP = Fin (112 / 5)\<rparr>,
      \<lparr>WDIR = Fin 130, WSPD = Fin 4, GST = Fin 6, ATMP = Fin (41 / 2), WTMP = Fin (223 / 10)\<rparr>]"
  by code_simp

text \<open>On the sample feed the air temperature is the older row's, the rest the newest row's.\<close>

theorem fetchBuoy_buoys_per_field_fallback_witness:
  "\<exists>obs. fetchBuoy_buoys (Inr \<lparr>ok = True, content = Inr sample_feed\<rparr>) = Inr obs \<and>
     field_of ''airF'' obs = JNum (oneDec (CtoF (Fin (41 / 2)))) \<and>
     field_of ''waterF'' obs = JNum (oneDec (CtoF (Fin (112 / 5)))) \<and>
     field_of ''windKts'' obs = JNum (oneDec (mpsToKts (Fin 5))) \<and>
     field_of ''gustKts'' obs = JNum (oneDec (mpsToKts (Fin 7))) \<and>
     field_of ''windDirCardinal'' obs = degToCardinal_util (Some (Fin 120))"
proof -
  let ?new = "\<lparr>WDIR = Fin 120, WSPD = Fin 5, GST = Fin 7, ATMP = NaN, WTMP = Fin (112 / 5)\<rparr>"
  let ?old = "\<lparr>WDIR = Fin 130, WSPD = Fin 4, GST = Fin 6, ATMP = Fin (41 / 2), WTMP = Fin (223 / 10)\<rparr>"
  let ?rows = "[?new, ?old]"
  have split_old: "?rows = [?new] @ ?old # []" and split_new: "?rows = [] @ ?new # [?old]"
    by simp_all
  have air: "first_numeric ATMP ?rows ?old"
    unfolding first_numeric_def by (intro exI conjI, rule split_old) simp_all
  have new: "first_numeric WTMP ?rows ?new" "first_numeric WSPD ?rows ?new"
    "first_numeric GST ?rows ?new" "first_numeric WDIR ?rows ?new"
    unfolding first_numeric_def by (intro exI conjI, rule split_new, simp, simp)+
  from fetchBuoy_buoys_per_field_fallback
    [of "\<lparr>ok = True, content = Inr sample_feed\<rparr>" sample_feed ?rows]
  obtain obs where "fetchBuoy_buoys (Inr \<lparr>ok = True, content = Inr sample_feed\<rparr>) = Inr obs"
    and "\<forall>r. first_numeric ATMP ?rows r \<longrightarrow> field_of ''airF'' obs = JNum (oneDec (CtoF (ATMP r)))"
    and "\<forall>r. first_numeric WTMP ?rows r \<longrightarrow> field_of ''waterF'' obs = JNum (oneDec (CtoF (WTMP r)))"
    and "\<forall>r. first_numeric WSPD ?rows r \<longrightarrow> field_of ''windKts'' obs = JNum (oneDec (mpsToKts (WSPD r)))"
    and "\<forall>r. first_numeric GST ?rows r \<longrightarrow> field_of ''gustKts'' obs = JNum (oneDec (mpsToKts (GST r)))"
    and "\<forall>r. first_numeric WDIR ?rows r \<longrightarrow>
       field_of ''windDirCardinal'' obs = degToCardinal_util (Some (WDIR r))"
    using sample_feed_rows by auto
  with air new show ?thesis by fastforce
qed

text \<open>
  Claim C3 fails on \<open>parseBuoy\<close> of part\_003: the sample feed has two data rows,
  the newest with the sentinel \<open>MM\<close> for the air temperature and the older with 20.5,
  and the result's air temperature is \<open>null\<close>.
\<close>

theorem parseBuoy_no_fallback_counterexample:
  "split_nl (trim sample_feed) = [sample_header, sample_newest, sample_older] \<and>
   header_003 (split_nl (trim sample_feed)) = Some sample_names \<and>
   indexOf sample_names ''ATMP'' = 13 \<and>
   at_index (split_ws (trim sample_newest)) 13 = Some ''MM'' \<and>
   at_index (split_ws (trim sample_older)) 13 = Some ''20.5'' \<and>
   field_of ''airF'' (parseBuoy (Inr \<lparr>ok = True, content = Inr sample_feed\<rparr>)) = JNull"
  by code_simp

subsection \<open>Columns by header name\<close>

lemma indexOf_mem:
  "f \<in> set hs \<Longrightarrow> 0 \<le> indexOf hs f \<and> nat (indexOf hs f) < length hs \<and> hs ! nat (indexOf hs f) = f"
proof (induction hs)
  case Nil
  then show ?case by simp
next
  case (Cons h hs)
  show ?case
  proof (cases "h = f")
    case True
    then show ?thesis by simp
  next
    case False
    with Cons.prems have "f \<in> set hs" by simp
    from Cons.IH [OF this] False show ?thesis
      by (simp add: Let_def nat_add_distrib)
  qed
qed

lemma indexOf_notin: "f \<notin> set hs \<Longrightarrow> indexOf hs f = - 1"
  by (induction hs) (auto simp: Let_def)

lemma indexOf_nth:
  assumes "distinct hs" and "i < length hs"
  shows "indexOf hs (hs ! i) = int i"
proof -
  from assms(2) have "hs ! i \<in> set hs" by simp
  from indexOf_mem [OF this]
  have a: "0 \<le> indexOf hs (hs ! i)" and b: "nat (indexOf hs (hs ! i)) < length hs"
    and c: "hs ! nat (indexOf hs (hs ! i)) = hs ! i" by simp_all
  from assms b c have "nat (indexOf hs (hs ! i)) = i"
    by (simp add: nth_eq_iff_index_eq)
  with a show ?thesis by simp
qed

lemma set_permute:
  assumes "set p = {..<length xs}"
  shows "set (permute p xs) = set xs"
proof -
  have "set (permute p xs) = (\<lambda>i. xs ! i) ` {..<length xs}"
    by (simp add: permute_def assms)
  also have "\<dots> = set xs"
    by (auto simp: set_conv_nth)
  finally show ?thesis .
qed

lemma get_col_permute:
  assumes d: "distinct hs" and len: "length c = length hs"
    and lp: "length p = length hs" and sp: "set p = {..<length hs}"
  shows "get_col (permute p c) (indexOf (permute p hs) f) = get_col c (indexOf hs f)"
proof (cases "f \<in> set hs")
  case False
  moreover from False sp have "f \<notin> set (permute p hs)" by (simp add: set_permute)
  ultimately show ?thesis by (simp add: indexOf_notin get_col_def)
next
  case True
  let ?i = "nat (indexOf hs f)" and ?j = "nat (indexOf (permute p hs) f)"
  from indexOf_mem [OF True]
  have i: "0 \<le> indexOf hs f" "?i < length hs" "hs ! ?i = f" by simp_all
  from True sp have "f \<in> set (permute p hs)" by (simp add: set_permute)
  from indexOf_mem [OF this]
  have j: "0 \<le> indexOf (permute p hs) f" "?j < length p" "permute p hs ! ?j = f"
    by (simp_all add: permute_def)
  from j(2) sp have pj: "p ! ?j < length hs"
    using nth_mem [of ?j p] by auto
  from j(2,3) have "hs ! (p ! ?j) = f" by (simp add: permute_def)
  with i(3) nth_eq_iff_index_eq [OF d pj i(2)] have eq: "p ! ?j = ?i" by simp
  from j(1,2) lp len have "get_col (permute p c) (indexOf (permute p hs) f)
      = Some (parseFloat (c ! (p ! ?j)))"
    by (simp add: get_col_def permute_def)
  moreover from i(1,2) len have "get_col c (indexOf hs f) = Some (parseFloat (c ! ?i))"
    by (simp add: get_col_def)
  ultimately show ?thesis using eq by simp
qed

lemma named_row_permute:
  assumes "distinct hs" and "length c = length hs"
    and "length p = length hs" and "set p = {..<length hs}"
  shows "named_row (permute p hs) (permute p c) = named_row hs c"
  by (simp add: named_row_def get_col_permute [OF assms])

lemma observe_permute:
  assumes "distinct hs" and "\<forall>c \<in> set cs. length c = length hs"
    and "length p = length hs" and "set p = {..<length hs}"
  shows "observe (permute p hs) (map (permute p) cs) = observe hs cs"
proof -
  have eq: "map (named_row (permute p hs)) (map (permute p) cs) = map (named_row hs) cs"
    using assms by (simp add: named_row_permute)
  show ?thesis unfolding observe_def eq by (rule refl)
qed

lemma named_row_at:
  assumes "distinct hs" and "i < length hs" and "length c = length hs"
  shows "get_col c (indexOf hs (hs ! i)) = Some (parseFloat (c ! i))"
  using assms by (simp add: indexOf_nth get_col_def)

text \<open>
  Claim C4, amended. In functions/weather/weather.js \<open>fetchBuoy\<close> reads each field
  in the column whose header bears its name: when the header names are distinct and
  every data row has one token per header name, a payload and the same payload with
  its columns (header and rows) rearranged by any permutation give the same
  observation. (\<open>fetchBuoy\<close> of js/buoys.js reads the fixed positions 5, 6, 7, 13
  and 14 whatever the header says.)
\<close>

theorem fetchBuoy_header_column_order:
  assumes "content r1 = Inr t1" and "content r2 = Inr t2"
    and "header_of (nonblank_lines t1) = Some h"
    and "rows_of (nonblank_lines t1) = cs"
    and "header_of (nonblank_lines t2) = Some (permute p h)"
    and "rows_of (nonblank_lines t2) = map (permute p) cs"
    and "distinct h" and "\<forall>c \<in> set cs. length c = length h"
    and "length p = length h" and "set p = {..<length h}"
  shows "fetchBuoy_header (Inr r2) = fetchBuoy_header (Inr r1) \<and>
    fetchBuoy_header (Inr r1) = Inr (observe h cs) \<and>
    (\<forall>c \<in> set cs. \<forall>i < length h.
       (h ! i = ''WDIR'' \<longrightarrow> WDIR (named_row h c) = Some (parseFloat (c ! i))) \<and>
       (h ! i = ''WSPD'' \<longrightarrow> WSPD (named_row h c) = Some (parseFloat (c ! i))) \<and>
       (h ! i = ''GST'' \<longrightarrow> GST (named_row h c) = Some (parseFloat (c ! i))) \<and>
       (h ! i = ''ATMP'' \<longrightarrow> ATMP (named_row h c) = Some (parseFloat (c ! i))) \<and>
       (h ! i = ''WTMP'' \<longrightarrow> WTMP (named_row h c) = Some (parseFloat (c ! i))))"
proof (intro conjI ballI allI impI)
  have one: "fetchBuoy_header (Inr r1) = Inr (observe h cs)"
    using assms(1,3,4) by (simp add: fetchBuoy_header_def fetch_then_def header_of_text_def)
  have two: "fetchBuoy_header (Inr r2) = Inr (observe (permute p h) (map (permute p) cs))"
    using assms(2,5,6) by (simp add: fetchBuoy_header_def fetch_then_def header_of_text_def)
  from one show "fetchBuoy_header (Inr r1) = Inr (observe h cs)" .
  from one two observe_permute [OF assms(7-10)]
  show "fetchBuoy_header (Inr r2) = fetchBuoy_header (Inr r1)" by simp
next
  fix c i
  assume c: "c \<in> set cs" and i: "i < length h"
  with assms(8) have len: "length c = length h" by simp
  note at = named_row_at [OF assms(7) i len]
  { assume "h ! i = ''WDIR''"
    with at show "WDIR (named_row h c) = Some (parseFloat (c ! i))" by (simp add: named_row_def) }
  { assume "h ! i = ''WSPD''"
    with at show "WSPD (named_row h c) = Some (parseFloat (c ! i))" by (simp add: named_row_def) }
  { assume "h ! i = ''GST''"
    with at show "GST (named_row h c) = Some (parseFloat (c ! i))" by (simp add: named_row_def) }
  { assume "h ! i = ''ATMP''"
    with at show "ATMP (named_row h c) = Some (parseFloat (c ! i))" by (simp add: named_row_def) }
  { assume "h ! i = ''WTMP''"
    with at show "WTMP (named_row h c) = Some (parseFloat (c ! i))" by (simp add: named_row_def) }
qed

lemma sample_parse:
  "header_of (nonblank_lines sample_feed) = Some sample_names"
  "rows_of (nonblank_lines sample_feed) = sample_rows"
  by code_simp+

lemma swapped_parse:
  "header_of (nonblank_lines swapped_feed) = Some (permute swap_last_two sample_names)"
  "rows_of (nonblank_lines swapped_feed) = map (permute swap_last_two) sample_rows"
  by code_simp+

lemma swap_set: "set swap_last_two = {..<15}"
proof -
  have "set swap_last_two = set [0..<15]" by code_simp
  then show ?thesis by (simp only: atLeast_upt)
qed

lemma sample_observation:
  "observe sample_names sample_rows =
     JObj [(''airF'', JNum (Fin (689 / 10))), (''waterF'', JNum (Fin (723 / 10))),
           (''windKts'', JNum (Fin (97 / 10))), (''gustKts'', JNum (Fin (68 / 5))),
           (''windDirCardinal'', JStr ''ESE'')]"
  by code_simp

text \<open>
  The sample feed and the feed with its last two columns exchanged: both give the air
  at 68.9 F (the newest row has none, the older one 20.5 C) and the water at 72.3 F.
\<close>

theorem fetchBuoy_header_column_order_witness:
  "fetchBuoy_header (Inr \<lparr>ok = True, content = Inr swapped_feed\<rparr>) =
     fetchBuoy_header (Inr \<lparr>ok = True, content = Inr sample_feed\<rparr>) \<and>
   fetchBuoy_header (Inr \<lparr>ok = True, content = Inr sample_feed\<rparr>) =
     Inr (observe sample_names sample_rows) \<and>
   fetchBuoy_header (Inr \<lparr>ok = True, content = Inr swapped_feed\<rparr>) =
     Inr (JObj [(''airF'', JNum (Fin (689 / 10))), (''waterF'', JNum (Fin (723 / 10))),
                (''windKts'', JNum (Fin (97 / 10))), (''gustKts'', JNum (Fin (68 / 5))),
                (''windDirCardinal'', JStr ''ESE'')])"
proof -
  have len: "length sample_names = 15" by (simp add: sample_names_def)
  have d: "distinct sample_names" by (simp add: sample_names_def)
  have rl: "\<forall>c \<in> set sample_rows. length c = length sample_names"
    by (simp add: sample_rows_def len)
  have lp: "length swap_last_two = length sample_names"
    by (simp add: swap_last_two_def len)
  have sp: "set swap_last_two = {..<length sample_names}"
    by (simp add: swap_set len)
  have c1: "content \<lparr>ok = True, content = Inr sample_feed\<rparr> = Inr sample_feed"
    and c2: "content \<lparr>ok = True, content = Inr swapped_feed\<rparr> = Inr swapped_feed"
    by simp_all
  from fetchBuoy_header_column_order [OF c1 c2 sample_parse swapped_parse d rl lp sp]
  show ?thesis by (simp add: sample_observation)
qed

text \<open>
  Claim C4 fails on \<open>fetchBuoy\<close> of js/buoys.js: exchanging the columns \<open>ATMP\<close> and
  \<open>WTMP\<close> of the sample feed, header and rows, changes the observation.
\<close>

theorem fetchBuoy_buoys_fixed_columns_counterexample:
  "header_of (nonblank_lines sample_feed) = Some sample_names \<and>
   rows_of (nonblank_lines sample_feed) = sample_rows \<and>
   header_of (nonblank_lines swapped_feed) = Some (permute swap_last_two sample_names) \<and>
   rows_of (nonblank_lines swapped_feed) = map (permute swap_last_two) sample_rows \<and>
   field_of ''airF'' (buoys_of_text sample_feed) = JNum (Fin (689 / 10)) \<and>
   field_of ''airF'' (buoys_of_text swapped_feed) = JNum (Fin (723 / 10)) \<and>
   fetchBuoy_buoys (Inr \<lparr>ok = True, content = Inr swapped_feed\<rparr>) \<noteq>
     fetchBuoy_buoys (Inr \<lparr>ok = True, content = Inr sample_feed\<rparr>)"
  by code_simp

subsection \<open>Missing wind readings\<close>

lemma fallback_None_iff: "fallback g rows = None \<longleftrightarrow> (\<forall>q \<in> set rows. isNaN (g q))"
  by (induction rows) (simp_all add: Let_def)

lemma nullable_JNull_iff: "nullable f x = JNull \<longleftrightarrow> x = None"
  by (cases x) (simp_all add: nullable_def)

lemma parseFloat_MM: "parseFloat ''MM'' = NaN"
  by code_simp

text \<open>
  Claim C9, amended. In js/buoys.js the wind speed (the gust) is reported as \<open>null\<close>
  exactly when no data row has a numeric value for it; a row that carries the sentinel
  \<open>MM\<close> has none, so a reading that is missing in every row is \<open>null\<close> and never 0.
  \<open>parseBuoy\<close> of part\_003 reports 0 when the newest row carries the sentinel.
\<close>

theorem missing_wind_is_null_in_buoys:
  "(ok resp \<and> content resp = Inr text \<and> rows = map fixed_row (data_lines text) \<longrightarrow>
     (\<exists>obs. fetchBuoy_buoys (Inr resp) = Inr obs \<and>
        (field_of ''windKts'' obs = JNull \<longleftrightarrow> (\<forall>q \<in> set rows. isNaN (WSPD q))) \<and>
        (field_of ''gustKts'' obs = JNull \<longleftrightarrow> (\<forall>q \<in> set rows. isNaN (GST q))))) \<and>
   (at_index (split_ws (trim l)) 6 = Some ''MM'' \<longrightarrow> isNaN (WSPD (fixed_row l))) \<and>
   (at_index (split_ws (trim l)) 7 = Some ''MM'' \<longrightarrow> isNaN (GST (fixed_row l))) \<and>
   (header_003 (split_nl (trim raw)) = Some h \<and>
    filter (\<lambda>l. \<not> starts_hash l) (split_nl (trim raw)) = row # rest \<longrightarrow>
      (at_index (split_ws (trim row)) (indexOf h ''WSPD'') = Some ''MM'' \<longrightarrow>
         field_of ''windKts'' (parseBuoy_text raw) = JNum (Fin 0)) \<and>
      (at_index (split_ws (trim row)) (indexOf h ''GST'') = Some ''MM'' \<longrightarrow>
         field_of ''gustKts'' (parseBuoy_text raw) = JNum (Fin 0)))"
proof (intro conjI impI)
  assume a: "ok resp \<and> content resp = Inr text \<and> rows = map fixed_row (data_lines text)"
  let ?obs = "buoys_of_text text"
  from a have run: "fetchBuoy_buoys (Inr resp) = Inr ?obs" by (simp add: fetchBuoy_buoys_ok)
  from a have "field_of ''windKts'' ?obs = nullable (oneDec \<circ> mpsToKts) (fallback WSPD rows)"
    and "field_of ''gustKts'' ?obs = nullable (oneDec \<circ> mpsToKts) (fallback GST rows)"
    by (simp_all add: buoys_of_text_def Let_def station_fields)
  then have "field_of ''windKts'' ?obs = JNull \<longleftrightarrow> (\<forall>q \<in> set rows. isNaN (WSPD q))"
    and "field_of ''gustKts'' ?obs = JNull \<longleftrightarrow> (\<forall>q \<in> set rows. isNaN (GST q))"
    by (simp_all add: nullable_JNull_iff fallback_None_iff)
  with run show "\<exists>obs. fetchBuoy_buoys (Inr resp) = Inr obs \<and>
        (field_of ''windKts'' obs = JNull \<longleftrightarrow> (\<forall>q \<in> set rows. isNaN (WSPD q))) \<and>
        (field_of ''gustKts'' obs = JNull \<longleftrightarrow> (\<forall>q \<in> set rows. isNaN (GST q)))"
    by blast
next
  assume "at_index (split_ws (trim l)) 6 = Some ''MM''"
  then show "isNaN (WSPD (fixed_row l))"
    by (simp add: fixed_row_def Let_def parseFloat_MM)
next
  assume "at_index (split_ws (trim l)) 7 = Some ''MM''"
  then show "isNaN (GST (fixed_row l))"
    by (simp add: fixed_row_def Let_def parseFloat_MM)
next
  assume p: "header_003 (split_nl (trim raw)) = Some h \<and>
    filter (\<lambda>l. \<not> starts_hash l) (split_nl (trim raw)) = row # rest"
  then have run: "parseBuoy_text raw = first_row_003 h row"
    by (simp add: parseBuoy_text_def Let_def)
  { assume "at_index (split_ws (trim row)) (indexOf h ''WSPD'') = Some ''MM''"
    then show "field_of ''windKts'' (parseBuoy_text raw) = JNum (Fin 0)"
      by (simp add: run first_row_003_def Let_def station_fields not_MM_def) }
  { assume "at_index (split_ws (trim row)) (indexOf h ''GST'') = Some ''MM''"
    then show "field_of ''gustKts'' (parseBuoy_text raw) = JNum (Fin 0)"
      by (simp add: run first_row_003_def Let_def station_fields not_MM_def) }
qed

lemma no_wind_rows:
  "map fixed_row (data_lines no_wind_feed) =
     [\<lparr>WDIR = Fin 120, WSPD = NaN, GST = NaN, ATMP = Fin 21, WTMP = Fin (112 / 5)\<rparr>]"
  by code_simp

lemma no_wind_003:
  "header_003 (split_nl (trim no_wind_feed)) = Some sample_names"
  "filter (\<lambda>l. \<not> starts_hash l) (split_nl (trim no_wind_feed)) = [no_wind_row]"
  "at_index (split_ws (trim no_wind_row)) (indexOf sample_names ''WSPD'') = Some ''MM''"
  "at_index (split_ws (trim no_wind_row)) 6 = Some ''MM''"
  by code_simp+

text \<open>The feed whose only row has no wind: \<open>null\<close> in js/buoys.js, 0 in part\_003.\<close>

theorem missing_wind_is_null_in_buoys_witness:
  "(\<exists>obs. fetchBuoy_buoys (Inr \<lparr>ok = True, content = Inr no_wind_feed\<rparr>) = Inr obs \<and>
     field_of ''windKts'' obs = JNull \<and> field_of ''gustKts'' obs = JNull) \<and>
   isNaN (WSPD (fixed_row no_wind_row)) \<and>
   field_of ''windKts'' (parseBuoy_text no_wind_feed) = JNum (Fin 0)"
  using missing_wind_is_null_in_buoys
    [of "\<lparr>ok = True, content = Inr no_wind_feed\<rparr>" no_wind_feed
      "[\<lparr>WDIR = Fin 120, WSPD = NaN, GST = NaN, ATMP = Fin 21, WTMP = Fin (112 / 5)\<rparr>]"
      no_wind_row no_wind_feed sample_names no_wind_row "[]"]
    no_wind_rows no_wind_003
  by auto

text \<open>
  Claim C9 fails on \<open>parseBuoy\<close> of part\_003: the only data row carries \<open>MM\<close> for
  wind speed and gust, and both are reported as 0.
\<close>

theorem parseBuoy_zero_wind_counterexample:
  "split_nl (trim no_wind_feed) = [sample_header, no_wind_row] \<and>
   header_003 (split_nl (trim no_wind_feed)) = Some sample_names \<and>
   indexOf sample_names ''WSPD'' = 6 \<and> indexOf sample_names ''GST'' = 7 \<and>
   at_index (split_ws (trim no_wind_row)) 6 = Some ''MM'' \<and>
   at_index (split_ws (trim no_wind_row)) 7 = Some ''MM'' \<and>
   field_of ''windKts'' (parseBuoy (Inr \<lparr>ok = True, content = Inr no_wind_feed\<rparr>)) = JNum (Fin 0) \<and>
   field_of ''gustKts'' (parseBuoy (Inr \<lparr>ok = True, content = Inr no_wind_feed\<rparr>)) = JNum (Fin 0)"
  by code_simp

subsection \<open>The wave selector\<close>

lemma nearest_first_skip:
  "nearest_first now pre i \<Longrightarrow> w_waveFt w = None \<Longrightarrow> nearest_first now (pre @ [w]) i"
  by (auto simp: nearest_first_def nth_append less_Suc_eq)

lemma nearest_first_keep:
  "nearest_first now pre i \<Longrightarrow> \<bar>w_time (pre ! i) - now\<bar> \<le> \<bar>w_time w - now\<bar> \<Longrightarrow>
   nearest_first now (pre @ [w]) i"
  by (auto simp: nearest_first_def nth_append less_Suc_eq)

lemma nearest_first_new:
  "w_waveFt w \<noteq> None \<Longrightarrow>
   (\<forall>j < length pre. w_waveFt (pre ! j) \<noteq> None \<longrightarrow> \<bar>w_time w - now\<bar> < \<bar>w_time (pre ! j) - now\<bar>) \<Longrightarrow>
   nearest_first now (pre @ [w]) (length pre)"
  by (auto simp: nearest_first_def nth_append less_Suc_eq)

lemma loop_inv_step_skip:
  "loop_inv now pre best diff \<Longrightarrow> w_waveFt w = None \<Longrightarrow> loop_inv now (pre @ [w]) best diff"
  unfolding loop_inv_def
  by (auto dest: nearest_first_skip simp: nth_append nearest_first_def)

lemma loop_inv_step_new:
  assumes "loop_inv now pre best diff" and "w_waveFt w \<noteq> None"
    and "below \<bar>w_time w - now\<bar> diff"
  shows "loop_inv now (pre @ [w]) (Some w) (Some \<bar>w_time w - now\<bar>)"
proof -
  have "\<forall>j < length pre. w_waveFt (pre ! j) \<noteq> None \<longrightarrow>
          \<bar>w_time w - now\<bar> < \<bar>w_time (pre ! j) - now\<bar>"
    using assms(1,3) unfolding loop_inv_def
    by (fastforce simp: below_def nearest_first_def)
  from nearest_first_new [OF assms(2) this] show ?thesis
    unfolding loop_inv_def by (intro disjI2 exI [of _ "length pre"]) simp
qed

lemma loop_inv_step_keep:
  assumes "loop_inv now pre best diff" and "w_waveFt w \<noteq> None"
    and "\<not> below \<bar>w_time w - now\<bar> diff"
  shows "loop_inv now (pre @ [w]) best diff"
proof -
  from assms(3) obtain x where x: "diff = Some x" "x \<le> \<bar>w_time w - now\<bar>"
    by (cases diff) (auto simp: below_def)
  with assms(1) obtain i where i: "nearest_first now pre i" "best = Some (pre ! i)"
    "x = \<bar>w_time (pre ! i) - now\<bar>"
    unfolding loop_inv_def by auto
  from i(1) have "i < length pre" by (simp add: nearest_first_def)
  with nearest_first_keep [OF i(1)] x i show ?thesis
    unfolding loop_inv_def by (intro disjI2 exI [of _ i]) (simp add: nth_append)
qed

lemma pick_loop_inv:
  "loop_inv now pre best diff \<Longrightarrow>
   loop_inv now (pre @ ws) (pick_loop now ws best diff)
     (map_option (\<lambda>b. \<bar>w_time b - now\<bar>) (pick_loop now ws best diff))"
proof (induction ws arbitrary: pre best diff)
  case Nil
  then show ?case by (auto simp: loop_inv_def)
next
  case (Cons w ws)
  have app: "pre @ w # ws = (pre @ [w]) @ ws" by simp
  show ?case
  proof (cases "w_waveFt w = None")
    case True
    from Cons.IH [OF loop_inv_step_skip [OF Cons.prems True]] show ?thesis
      unfolding app by (simp add: True)
  next
    case valid: False
    show ?thesis
    proof (cases "below \<bar>w_time w - now\<bar> diff")
      case True
      from Cons.IH [OF loop_inv_step_new [OF Cons.prems valid True]] show ?thesis
        unfolding app by (simp add: Let_def valid True)
    next
      case False
      from Cons.IH [OF loop_inv_step_keep [OF Cons.prems valid False]] show ?thesis
        unfolding app by (simp add: Let_def valid False)
    qed
  qed
qed

lemma pick_loop_result:
  "(pick_loop now ws None None = None \<and> (\<forall>x \<in> set ws. w_waveFt x = None)) \<or>
   (\<exists>i. nearest_first now ws i \<and> pick_loop now ws None None = Some (ws ! i))"
proof -
  have "loop_inv now [] None None" by (simp add: loop_inv_def)
  from pick_loop_inv [OF this, of ws] show ?thesis
    by (auto simp: loop_inv_def)
qed

lemma nearest_first_unique:
  assumes "nearest_first now ws i" and "nearest_first now ws j"
  shows "i = j"
proof (rule ccontr)
  assume "i \<noteq> j"
  then consider "i < j" | "j < i" by linarith
  then show False
  proof cases
    case 1
    with assms have "\<bar>w_time (ws ! j) - now\<bar> < \<bar>w_time (ws ! i) - now\<bar>"
      and "\<bar>w_time (ws ! i) - now\<bar> \<le> \<bar>w_time (ws ! j) - now\<bar>"
      by (auto simp: nearest_first_def)
    then show False by simp
  next
    case 2
    with assms have "\<bar>w_time (ws ! i) - now\<bar> < \<bar>w_time (ws ! j) - now\<bar>"
      and "\<bar>w_time (ws ! j) - now\<bar> \<le> \<bar>w_time (ws ! i) - now\<bar>"
      by (auto simp: nearest_first_def)
    then show False by simp
  qed
qed

text \<open>
  Claim C7, amended. \<open>pickCurrentWave\<close> (part\_004, part\_001) returns the height of
  the point that is nearest in time to now among the points with a height, the first
  one scanned on a tie, and \<open>waveFt = null\<close> for a missing forecast, an empty series
  or one whose points all have a null height. Such a nearest point exists as soon as
  one point has a height. (\<open>fetchStormglass\<close> of functions/weather.js does not skip
  the points with a null height.)
\<close>

theorem pickCurrentWave_nearest_first:
  "pickCurrentWave now None = JObj [(''waveFt'', JNull)] \<and>
   ((\<forall>x \<in> set (f_waves fc). w_waveFt x = None) \<longrightarrow>
      pickCurrentWave now (Some fc) = JObj [(''waveFt'', JNull)]) \<and>
   ((\<exists>x \<in> set (f_waves fc). w_waveFt x \<noteq> None) \<longrightarrow>
      (\<exists>i. nearest_first now (f_waves fc) i)) \<and>
   (nearest_first now (f_waves fc) i \<longrightarrow>
      (\<exists>ft. w_waveFt (f_waves fc ! i) = Some ft \<and>
            pickCurrentWave now (Some fc) = JObj [(''waveFt'', JNum ft)]))"
proof (intro conjI impI)
  show "pickCurrentWave now None = JObj [(''waveFt'', JNull)]"
    by (simp add: pickCurrentWave_def no_wave_def)
next
  assume none: "\<forall>x \<in> set (f_waves fc). w_waveFt x = None"
  with pick_loop_result [of now "f_waves fc"]
  have "pick_loop now (f_waves fc) None None = None"
    by (auto simp: nearest_first_def)
  then show "pickCurrentWave now (Some fc) = JObj [(''waveFt'', JNull)]"
    by (simp add: pickCurrentWave_def no_wave_def)
next
  assume "\<exists>x \<in> set (f_waves fc). w_waveFt x \<noteq> None"
  with pick_loop_result [of now "f_waves fc"]
  show "\<exists>i. nearest_first now (f_waves fc) i" by auto
next
  assume i: "nearest_first now (f_waves fc) i"
  then have lt: "i < length (f_waves fc)" and v: "w_waveFt (f_waves fc ! i) \<noteq> None"
    by (simp_all add: nearest_first_def)
  from lt have ne: "f_waves fc \<noteq> []" by auto
  from v obtain ft where ft: "w_waveFt (f_waves fc ! i) = Some ft" by auto
  from i have "\<not> (\<forall>x \<in> set (f_waves fc). w_waveFt x = None)"
    by (auto simp: nearest_first_def)
  with pick_loop_result [of now "f_waves fc"] obtain j
    where j: "nearest_first now (f_waves fc) j"
      "pick_loop now (f_waves fc) None None = Some (f_waves fc ! j)"
    by auto
  from nearest_first_unique [OF i j(1)] j(2) ft ne
  have "pickCurrentWave now (Some fc) = JObj [(''waveFt'', JNum ft)]"
    by (simp add: pickCurrentWave_def)
  with ft show "\<exists>ft. w_waveFt (f_waves fc ! i) = Some ft \<and>
            pickCurrentWave now (Some fc) = JObj [(''waveFt'', JNum ft)]"
    by simp
qed

text \<open>Points two hours before (3 ft) and one hour after (4 ft): the result is 4 ft.\<close>

theorem pickCurrentWave_nearest_first_witness:
  "nearest_first 0 (f_waves two_points) 1 \<and>
   pickCurrentWave 0 (Some two_points) = JObj [(''waveFt'', JNum (Fin 4))]"
proof -
  have n: "nearest_first 0 (f_waves two_points) 1"
    by (simp add: nearest_first_def two_points_def less_Suc_eq)
  with pickCurrentWave_nearest_first [of 0 two_points 1] show ?thesis
    by (auto simp: two_points_def)
qed

text \<open>
  Claim C7 fails on \<open>fetchStormglass\<close> of functions/weather.js: the nearest hour has
  no height, the next one has 1 m, and the result is the null reading, not the 3.3 ft
  of the nearest point with a height.
\<close>

theorem fetchStormglass_null_nearest_counterexample:
  "fetchStormglass 0
     (Inr \<lparr>ok = True, content = Inr [\<lparr>h_time = 0, h_sg = None\<rparr>,
                                     \<lparr>h_time = 3600000, h_sg = Some (Fin 1)\<rparr>]\<rparr>)
   = JObj [(''waveM'', JNull), (''waveFt'', JNull)] \<and>
   round1 (m_to_ft (Fin 1)) = Fin (33 / 10)"
  by code_simp

subsection \<open>The wave cache\<close>

text \<open>
  Claim C8, amended. When the cache entry is stale or absent and the upstream forecast
  fetch fails, \<open>getWavesCached\<close> (functions/weather.js, part\_002) never serves a
  previously cached reading other than the null reading. If the blob store works, it
  returns the null reading \<open>{ waveM: null, waveFt: null }\<close> and overwrites the entry
  with that reading, stamped with the current time. If \<open>store.get\<close> rejects, or
  \<open>store.setJSON\<close> rejects, the call rejects with that error and the entry stays as it
  was.
\<close>

theorem getWavesCached_failed_refresh:
  assumes "stale ttl w" and "upstream_failed (stormglass_fetch w)"
  shows "(blob_get_error w = None \<and> blob_set_error w = None \<longrightarrow>
            getWavesCached ttl w =
              (Inr (JObj [(''waveM'', JNull), (''waveFt'', JNull)]),
               Some \<lparr>c_timestamp = clock w,
                     c_waves = JObj [(''waveM'', JNull), (''waveFt'', JNull)]\<rparr>)) \<and>
         (blob_get_error w = Some e \<longrightarrow> getWavesCached ttl w = (Inl e, blob w)) \<and>
         (blob_get_error w = None \<and> blob_set_error w = Some e' \<longrightarrow>
            getWavesCached ttl w = (Inl e', blob w)) \<and>
         (blob w = Some c \<and> c_waves c \<noteq> JObj [(''waveM'', JNull), (''waveFt'', JNull)] \<longrightarrow>
            fst (getWavesCached ttl w) \<noteq> Inr (c_waves c))"
proof -
  from assms(2) have f: "fetchStormglass (clock w) (stormglass_fetch w) = null_wave"
    by (auto simp: upstream_failed_def fetchStormglass_def split: sum.splits)
  have r: "refresh_waves w =
      (case blob_set_error w of
         Some x \<Rightarrow> (Inl x, blob w)
       | None \<Rightarrow> (Inr null_wave, Some \<lparr>c_timestamp = clock w, c_waves = null_wave\<rparr>))"
    by (simp add: refresh_waves_def f)
  have g: "getWavesCached ttl w =
      (case blob_get_error w of Some x \<Rightarrow> (Inl x, blob w) | None \<Rightarrow> refresh_waves w)"
    using assms(1) by (auto simp: getWavesCached_def stale_def split: option.splits)
  have works: "blob_get_error w = None \<and> blob_set_error w = None \<longrightarrow>
      getWavesCached ttl w =
        (Inr (JObj [(''waveM'', JNull), (''waveFt'', JNull)]),
         Some \<lparr>c_timestamp = clock w, c_waves = JObj [(''waveM'', JNull), (''waveFt'', JNull)]\<rparr>)"
    by (simp add: g r null_wave_def)
  have get: "blob_get_error w = Some e \<longrightarrow> getWavesCached ttl w = (Inl e, blob w)"
    by (simp add: g)
  have set: "blob_get_error w = None \<and> blob_set_error w = Some e' \<longrightarrow>
      getWavesCached ttl w = (Inl e', blob w)"
    by (simp add: g r)
  have served: "blob w = Some c \<and> c_waves c \<noteq> JObj [(''waveM'', JNull), (''waveFt'', JNull)] \<longrightarrow>
      fst (getWavesCached ttl w) \<noteq> Inr (c_waves c)"
    by (auto simp: g r null_wave_def split: option.splits)
  from works get set served show ?thesis by (intro conjI)
qed

lemma stale_world_facts:
  "blob_get_error stale_world = None" "blob_set_error stale_world = None"
  "stale four_hours stale_world" "upstream_failed (stormglass_fetch stale_world)"
  "clock stale_world = 14400000"
  "blob stale_world = Some \<lparr>c_timestamp = 0, c_waves = cached_waves\<rparr>"
  by (simp_all add: stale_world_def tide_down_def stale_def four_hours_def upstream_failed_def)

lemma stale_get_down_facts:
  "blob_get_error stale_get_down = Some (Error ''blob store unavailable'')"
  "stale four_hours stale_get_down" "upstream_failed (stormglass_fetch stale_get_down)"
  "blob stale_get_down = Some \<lparr>c_timestamp = 0, c_waves = cached_waves\<rparr>"
  by (simp_all add: stale_get_down_def stale_world_def tide_down_def stale_def four_hours_def
      upstream_failed_def)

lemma stale_set_down_facts:
  "blob_get_error stale_set_down = None"
  "blob_set_error stale_set_down = Some (Error ''blob store unavailable'')"
  "stale four_hours stale_set_down" "upstream_failed (stormglass_fetch stale_set_down)"
  "blob stale_set_down = Some \<lparr>c_timestamp = 0, c_waves = cached_waves\<rparr>"
  by (simp_all add: stale_set_down_def stale_world_def tide_down_def stale_def four_hours_def
      upstream_failed_def)

lemma cached_waves_not_null: "cached_waves \<noteq> JObj [(''waveM'', JNull), (''waveFt'', JNull)]"
  by (simp add: cached_waves_def)

text \<open>
  An entry that is four hours old, holding a reading of 3.3 ft, and a fetch that
  rejects: with a working store, with a store that rejects the read, and with one that
  rejects the write.
\<close>

theorem getWavesCached_failed_refresh_witness:
  "getWavesCached four_hours stale_world =
     (Inr (JObj [(''waveM'', JNull), (''waveFt'', JNull)]),
      Some \<lparr>c_timestamp = 14400000, c_waves = JObj [(''waveM'', JNull), (''waveFt'', JNull)]\<rparr>) \<and>
   fst (getWavesCached four_hours stale_world) \<noteq> Inr cached_waves \<and>
   getWavesCached four_hours stale_get_down =
     (Inl (Error ''blob store unavailable''), Some \<lparr>c_timestamp = 0, c_waves = cached_waves\<rparr>) \<and>
   getWavesCached four_hours stale_set_down =
     (Inl (Error ''blob store unavailable''), Some \<lparr>c_timestamp = 0, c_waves = cached_waves\<rparr>)"
proof -
  let ?c = "\<lparr>c_timestamp = 0, c_waves = cached_waves\<rparr>"
  let ?e = "Error ''blob store unavailable''"
  from getWavesCached_failed_refresh [of four_hours stale_world ?e ?e ?c]
    stale_world_facts cached_waves_not_null
  have a: "getWavesCached four_hours stale_world =
     (Inr (JObj [(''waveM'', JNull), (''waveFt'', JNull)]),
      Some \<lparr>c_timestamp = 14400000, c_waves = JObj [(''waveM'', JNull), (''waveFt'', JNull)]\<rparr>)"
    and b: "fst (getWavesCached four_hours stale_world) \<noteq> Inr cached_waves"
    by simp_all
  from getWavesCached_failed_refresh [of four_hours stale_get_down ?e ?e ?c] stale_get_down_facts
  have c: "getWavesCached four_hours stale_get_down = (Inl ?e, Some ?c)"
    by simp
  from getWavesCached_failed_refresh [of four_hours stale_set_down ?e ?e ?c] stale_set_down_facts
  have d: "getWavesCached four_hours stale_set_down = (Inl ?e, Some ?c)"
    by simp
  from a b c d show ?thesis by (intro conjI)
qed

text \<open>
  Claim C8 fails: the stale entry holds a reading of 3.3 ft, the fetch rejects, and
  the call returns the null reading, which also replaces the entry.
\<close>

theorem getWavesCached_overwrites_counterexample:
  "blob stale_world = Some \<lparr>c_timestamp = 0, c_waves = cached_waves\<rparr> \<and>
   stale four_hours stale_world \<and> upstream_failed (stormglass_fetch stale_world) \<and>
   fst (getWavesCached four_hours stale_world) \<noteq> Inr cached_waves \<and>
   snd (getWavesCached four_hours stale_world) =
     Some \<lparr>c_timestamp = 14400000, c_waves = JObj [(''waveM'', JNull), (''waveFt'', JNull)]\<rparr>"
  by code_simp


subsection \<open>Tide predictions\<close>



text \<open>
  The double model: \<open>binade\<close> finds the exponent, and the double taken is within half
  a unit in the last place of the number, with an even significand at a tie.
\<close>

lemma ilog2_bounds: "1 \<le> n \<Longrightarrow> 2 ^ ilog2 n \<le> n \<and> n < 2 ^ Suc (ilog2 n)"
proof (induction n rule: ilog2.induct)
  case (1 n)
  show ?case
  proof (cases "n < 2")
    case True
    with 1(2) have "n = 1" by simp
    then show ?thesis by (simp add: ilog2.simps)
  next
    case False
    then have h: "1 \<le> n div 2" by simp
    from 1(1) [OF False h] have lo: "2 ^ ilog2 (n div 2) \<le> n div 2" and hi: "n div 2 < 2 ^ Suc (ilog2 (n div 2))"
      by simp_all
    have eq: "ilog2 n = Suc (ilog2 (n div 2))" using False by (subst ilog2.simps) simp
    have "2 * 2 ^ ilog2 (n div 2) \<le> 2 * (n div 2)" using lo by simp
    also have "\<dots> \<le> n" by simp
    finally have a: "2 ^ ilog2 n \<le> n" by (simp add: eq)
    have "n div 2 + 1 \<le> 2 ^ Suc (ilog2 (n div 2))" using hi by simp
    then have "2 * (n div 2) + 2 \<le> 2 * 2 ^ Suc (ilog2 (n div 2))" by simp
    moreover have "n < 2 * (n div 2) + 2" by presburger
    ultimately have b: "n < 2 ^ Suc (ilog2 n)" by (simp add: eq)
    from a b show ?thesis by simp
  qed
qed

lemma pow2_pos: "0 < pow2 e"
  by (simp add: pow2_def)

lemma pow2_Suc: "pow2 (e + 1) = 2 * pow2 e"
proof -
  consider "0 \<le> e" | "e = - 1" | "e < - 1" by linarith
  then show ?thesis
  proof cases
    case 1
    then have "nat (e + 1) = Suc (nat e)" by simp
    with 1 show ?thesis by (simp add: pow2_def)
  next
    case 2
    then show ?thesis by (simp add: pow2_def)
  next
    case 3
    then have "nat (- e) = Suc (nat (- e - 1))" by simp
    with 3 show ?thesis by (simp add: pow2_def)
  qed
qed

lemma pow_le_of_int: "2 ^ k \<le> (c::int) \<Longrightarrow> (2::rat) ^ k \<le> of_int c"
  by (metis of_int_le_iff of_int_numeral of_int_power)

lemma of_int_le_pow: "(c::int) \<le> 2 ^ k \<Longrightarrow> (of_int c :: rat) \<le> 2 ^ k"
  by (metis of_int_le_iff of_int_numeral of_int_power)

lemma binade_bounds:
  assumes "0 < x"
  shows "pow2 (binade x) \<le> x \<and> x < pow2 (binade x + 1)"
proof (cases "1 \<le> x")
  case True
  then have f: "1 \<le> \<lfloor>x\<rfloor>" by simp
  from ilog2_bounds [OF f] have lo: "2 ^ ilog2 \<lfloor>x\<rfloor> \<le> \<lfloor>x\<rfloor>" and hi: "\<lfloor>x\<rfloor> < 2 ^ Suc (ilog2 \<lfloor>x\<rfloor>)"
    by simp_all
  have b: "binade x = int (ilog2 \<lfloor>x\<rfloor>)" using True by (simp add: binade_def)
  have "of_int \<lfloor>x\<rfloor> \<le> x" by simp
  with pow_le_of_int [OF lo] have "2 ^ ilog2 \<lfloor>x\<rfloor> \<le> x" by (rule order_trans)
  then have a: "pow2 (binade x) \<le> x" by (simp add: b pow2_def)
  from hi have "\<lfloor>x\<rfloor> + 1 \<le> 2 ^ Suc (ilog2 \<lfloor>x\<rfloor>)" by simp
  from of_int_le_pow [OF this] have "of_int \<lfloor>x\<rfloor> + 1 \<le> (2::rat) ^ Suc (ilog2 \<lfloor>x\<rfloor>)"
    by (simp only: of_int_add of_int_1)
  moreover have "x < of_int \<lfloor>x\<rfloor> + 1" by linarith
  moreover have "(2::rat) ^ Suc (ilog2 \<lfloor>x\<rfloor>) = 2 * 2 ^ ilog2 \<lfloor>x\<rfloor>" by simp
  ultimately have "x < 2 * 2 ^ ilog2 \<lfloor>x\<rfloor>" by linarith
  moreover have "pow2 (binade x + 1) = 2 * 2 ^ ilog2 \<lfloor>x\<rfloor>"
    unfolding pow2_Suc b by (simp add: pow2_def)
  ultimately have "x < pow2 (binade x + 1)" by simp
  with a show ?thesis by simp
next
  case False
  define y where "y = 1 / x"
  define c where "c = \<lceil>y\<rceil> - 1"
  from False assms have y1: "1 < y" by (simp add: y_def)
  then have c1: "1 \<le> c" unfolding c_def by linarith
  from ilog2_bounds [OF c1] have lo: "2 ^ ilog2 c \<le> c" and hi: "c < 2 ^ Suc (ilog2 c)"
    by simp_all
  have b: "binade x = - int (ilog2 c) - 1" using False by (simp add: binade_def c_def y_def)
  have cy: "of_int c < y" "y \<le> of_int c + 1" unfolding c_def by linarith+
  from pow_le_of_int [OF lo] cy have ylo: "2 ^ ilog2 c < y" by linarith
  from hi have "c + 1 \<le> 2 ^ Suc (ilog2 c)" by simp
  from of_int_le_pow [OF this] have "of_int c + 1 \<le> (2::rat) ^ Suc (ilog2 c)"
    by (simp only: of_int_add of_int_1)
  moreover have "(2::rat) ^ Suc (ilog2 c) = 2 * 2 ^ ilog2 c" by simp
  ultimately have yhi: "y \<le> 2 * 2 ^ ilog2 c" using cy by linarith
  have x: "1 / y = x" using assms by (simp add: y_def)
  have p1: "pow2 (binade x) = 1 / (2 * 2 ^ ilog2 c)"
  proof -
    have "binade x = - int (Suc (ilog2 c))" by (simp add: b)
    moreover have "pow2 (- int (Suc (ilog2 c))) = 1 / 2 ^ Suc (ilog2 c)"
      unfolding pow2_def by (simp del: of_nat_Suc power_Suc)
    ultimately show ?thesis by simp
  qed
  have p2: "pow2 (binade x + 1) = 1 / 2 ^ ilog2 c"
    by (simp add: pow2_Suc p1)
  have ypos: "0 < y" using y1 by simp
  have "1 / (2 * 2 ^ ilog2 c) \<le> 1 / y"
    using yhi ypos by (intro divide_left_mono) simp_all
  then have a: "pow2 (binade x) \<le> x" by (simp only: p1 x)
  have "1 / y < 1 / 2 ^ ilog2 c"
    using ylo ypos by (intro divide_strict_left_mono) simp_all
  then have "x < pow2 (binade x + 1)" by (simp only: p2 x)
  with a show ?thesis by simp
qed


lemma round_even_near: "\<bar>of_int (round_even r) - r\<bar> \<le> 1 / 2"
proof -
  have "of_int \<lfloor>r\<rfloor> \<le> r" "r < of_int \<lfloor>r\<rfloor> + 1" by linarith+
  then show ?thesis by (auto simp: round_even_def Let_def)
qed

lemma round_even_tie: "r - of_int \<lfloor>r\<rfloor> = 1 / 2 \<Longrightarrow> even (round_even r)"
  by (simp add: round_even_def Let_def)

lemma to_double_near:
  assumes "to_double x = Fin d"
  shows "\<bar>d - x\<bar> \<le> pow2 (max (binade \<bar>x\<bar> - 52) (- 1074)) / 2"
proof (cases "x = 0")
  case True
  with assms have "d = 0" by (simp add: to_double_def)
  with True pow2_pos [of "max (binade \<bar>x\<bar> - 52) (- 1074)"] show ?thesis by simp
next
  case False
  define e where "e = max (binade \<bar>x\<bar> - 52) (- 1074)"
  define m where "m = round_even (\<bar>x\<bar> / pow2 e)"
  have p: "0 < pow2 e" by (rule pow2_pos)
  from assms False have d: "d = (if x < 0 then - (of_int m * pow2 e) else of_int m * pow2 e)"
    by (simp add: to_double_def Let_def e_def m_def split: if_splits)
  have "\<bar>of_int m - \<bar>x\<bar> / pow2 e\<bar> \<le> 1 / 2" unfolding m_def by (rule round_even_near)
  then have "\<bar>of_int m - \<bar>x\<bar> / pow2 e\<bar> * pow2 e \<le> 1 / 2 * pow2 e"
    using p by (intro mult_right_mono) simp_all
  moreover have "\<bar>of_int m - \<bar>x\<bar> / pow2 e\<bar> * pow2 e = \<bar>of_int m * pow2 e - \<bar>x\<bar>\<bar>"
  proof -
    have "\<bar>of_int m - \<bar>x\<bar> / pow2 e\<bar> * pow2 e = \<bar>(of_int m - \<bar>x\<bar> / pow2 e) * pow2 e\<bar>"
      using p by (simp add: abs_mult)
    also have "(of_int m - \<bar>x\<bar> / pow2 e) * pow2 e = of_int m * pow2 e - \<bar>x\<bar>"
      using p by (simp add: algebra_simps)
    finally show ?thesis .
  qed
  ultimately have "\<bar>of_int m * pow2 e - \<bar>x\<bar>\<bar> \<le> pow2 e / 2" by simp
  moreover have "\<bar>d - x\<bar> = \<bar>of_int m * pow2 e - \<bar>x\<bar>\<bar>"
  proof (cases "x < 0")
    case True
    then have "d - x = - (of_int m * pow2 e - \<bar>x\<bar>)" by (simp add: d)
    then show ?thesis by (simp only: abs_minus)
  next
    case False
    then show ?thesis by (simp add: d)
  qed
  ultimately show ?thesis by (simp add: e_def)
qed















subsection \<open>The handlers\<close>

lemma getWavesCached_throws_iff:
  "isl (fst (getWavesCached ttl w)) \<longleftrightarrow>
     blob_get_error w \<noteq> None \<or> (stale ttl w \<and> blob_set_error w \<noteq> None)"
  by (auto simp: getWavesCached_def refresh_waves_def stale_def Let_def split: option.splits)

lemma handler_cases:
  "statusCode (fst (handler w)) = (if isl (fst (getWavesCached four_hours w)) then 500 else 200)"
  "keys (body (fst (handler w))) =
     (if isl (fst (getWavesCached four_hours w))
      then [''error'', ''gulf'', ''bay'', ''waves'', ''sun'', ''tides'']
      else [''gulf'', ''bay'', ''waves'', ''sun'', ''tides''])"
  by (cases "getWavesCached four_hours w"; cases "fst (getWavesCached four_hours w)";
      simp add: handler_def Let_def)+

lemma handler_001_cases:
  "statusCode (handler_001 w1) = 200"
  "keys (body (handler_001 w1)) = [''gulf'', ''bay'', ''waves'', ''tides'', ''sun'', ''usharborsOutdated'']
   \<or> keys (body (handler_001 w1)) =
       [''error'', ''gulf'', ''bay'', ''waves'', ''tides'', ''sun'', ''usharborsOutdated'']"
  by (simp_all add: handler_001_def fatal_001_def Let_def split: sum.splits)

lemma refresh_waves_tides_fetch: "refresh_waves (w\<lparr>tides_fetch := t\<rparr>) = refresh_waves w"
  by (simp add: refresh_waves_def Let_def split: option.splits)

lemma getWavesCached_tides_fetch:
  "getWavesCached ttl (w\<lparr>tides_fetch := t\<rparr>) = getWavesCached ttl w"
  by (simp add: getWavesCached_def refresh_waves_tides_fetch split: option.splits)

text \<open>
  Claim C1, amended. Each handler answers every invocation with a reply. The handler
  of part\_001 answers with status 200 on every path. The handler of
  functions/weather.js answers with status 200 and the five report fields whenever
  the blob store works, whatever the upstream sources do; when the read of the store
  rejects, or the entry is stale and the write rejects, it answers with status 500 and
  a body with an error text and null fields.
\<close>

theorem handler_status:
  "statusCode (handler_001 w1) = 200 \<and>
   (statusCode (fst (handler w)) = 500 \<longleftrightarrow>
      blob_get_error w \<noteq> None \<or> (stale four_hours w \<and> blob_set_error w \<noteq> None)) \<and>
   (statusCode (fst (handler w)) = 200 \<longleftrightarrow>
      blob_get_error w = None \<and> (stale four_hours w \<longrightarrow> blob_set_error w = None)) \<and>
   keys (body (fst (handler w))) =
     (if statusCode (fst (handler w)) = 200
      then [''gulf'', ''bay'', ''waves'', ''sun'', ''tides'']
      else [''error'', ''gulf'', ''bay'', ''waves'', ''sun'', ''tides''])"
  using getWavesCached_throws_iff [of four_hours w]
  by (auto simp: handler_cases handler_001_cases(1))

text \<open>A world with a working store and a tide fetch that rejects: status 200.\<close>

theorem handler_status_witness:
  "statusCode (fst (handler tide_down)) = 200 \<and>
   keys (body (fst (handler tide_down))) = [''gulf'', ''bay'', ''waves'', ''sun'', ''tides'']"
proof -
  have "blob_get_error tide_down = None" "\<not> stale four_hours tide_down"
    by (simp_all add: tide_down_def stale_def four_hours_def)
  with handler_status [of _ tide_down] show ?thesis by simp
qed

text \<open>
  Claim C1 fails on the handler of functions/weather.js: when \<open>store.get\<close> rejects,
  the first await of the handler throws and the reply has status 500.
\<close>

theorem handler_store_failure_counterexample:
  "blob_get_error store_down = Some (Error ''blob store unavailable'') \<and>
   statusCode (fst (handler store_down)) = 500"
  by code_simp

text \<open>
  Claim C2, amended. In functions/weather.js, when the tide source throws and the wave
  and buoy sources succeed, the reply has status 200 and its report holds the fetched
  buoy, wave and sun values unchanged (the same as in a run where the tide source
  answers) and \<open>tides = { low: null, high: null }\<close>; the report has no \<open>degraded\<close>
  field.
\<close>

theorem handler_tide_failure_isolated:
  assumes "fetchTides (tides_fetch w) = Inl e"
    and "fst (getWavesCached four_hours w) = Inr waves"
    and "fetchBuoy_weather (buoy_fetch w ''BZST2'') = Inr gulf"
    and "fetchBuoy_weather (buoy_fetch w ''PCGT2'') = Inr bay"
  shows "statusCode (fst (handler w)) = 200 \<and>
    body (fst (handler w)) =
      JObj [(''gulf'', gulf), (''bay'', bay), (''waves'', waves), (''sun'', sun_times w),
            (''tides'', JObj [(''low'', JNull), (''high'', JNull)])] \<and>
    field_of ''degraded'' (body (fst (handler w))) = JUndefined \<and>
    (\<forall>t tv. fetchTides t = Inr tv \<longrightarrow>
       body (fst (handler (w\<lparr>tides_fetch := t\<rparr>))) =
         JObj [(''gulf'', gulf), (''bay'', bay), (''waves'', waves), (''sun'', sun_times w),
               (''tides'', tv)])"
proof -
  have same: "getWavesCached four_hours (w\<lparr>tides_fetch := t\<rparr>) = getWavesCached four_hours w"
    for t
    by (rule getWavesCached_tides_fetch)
  obtain st where run: "getWavesCached four_hours w = (Inr waves, st)"
    using assms(2) by (cases "getWavesCached four_hours w") simp
  have "body (fst (handler (w\<lparr>tides_fetch := t\<rparr>))) =
         JObj [(''gulf'', gulf), (''bay'', bay), (''waves'', waves), (''sun'', sun_times w),
               (''tides'', tv)]"
    if "fetchTides t = Inr tv" for t tv
    using that assms(3,4)
    by (simp add: handler_def same run Let_def safeFetchBuoy_def safeFetchTides_def)
  moreover have "statusCode (fst (handler w)) = 200 \<and>
    body (fst (handler w)) =
      JObj [(''gulf'', gulf), (''bay'', bay), (''waves'', waves), (''sun'', sun_times w),
            (''tides'', JObj [(''low'', JNull), (''high'', JNull)])]"
    using assms(1,3,4)
    by (simp add: handler_def run Let_def safeFetchBuoy_def safeFetchTides_def)
  ultimately show ?thesis by simp
qed

lemma tide_down_facts:
  "fetchTides (tides_fetch tide_down) = Inl (Error ''network'')"
  "fst (getWavesCached four_hours tide_down) = Inr cached_waves"
  "fetchBuoy_weather (buoy_fetch tide_down ''BZST2'') =
     Inr (station (JNum (Fin (689 / 10))) (JNum (Fin (723 / 10))) (JNum (Fin (97 / 10)))
            (JNum (Fin (68 / 5))) (JStr ''ESE''))"
  "fetchBuoy_weather (buoy_fetch tide_down ''PCGT2'') =
     Inr (station (JNum (Fin (689 / 10))) (JNum (Fin (723 / 10))) (JNum (Fin (97 / 10)))
            (JNum (Fin (68 / 5))) (JStr ''ESE''))"
  by code_simp+

text \<open>The world \<open>tide_down\<close>: the buoy and wave values arrive, the tides are null.\<close>

theorem handler_tide_failure_isolated_witness:
  "statusCode (fst (handler tide_down)) = 200 \<and>
   field_of ''gulf'' (body (fst (handler tide_down))) =
     station (JNum (Fin (689 / 10))) (JNum (Fin (723 / 10))) (JNum (Fin (97 / 10)))
       (JNum (Fin (68 / 5))) (JStr ''ESE'') \<and>
   field_of ''waves'' (body (fst (handler tide_down))) = cached_waves \<and>
   field_of ''tides'' (body (fst (handler tide_down))) = JObj [(''low'', JNull), (''high'', JNull)]"
  using handler_tide_failure_isolated [OF tide_down_facts]
  by simp

text \<open>
  Claim C2 fails on the flag: with the tide source down the report has the five fields
  \<open>gulf\<close>, \<open>bay\<close>, \<open>waves\<close>, \<open>sun\<close>, \<open>tides\<close> and no \<open>degraded\<close> field, so the flag
  is not \<open>true\<close>.
\<close>

theorem handler_no_degraded_flag_counterexample:
  "fetchTides (tides_fetch tide_down) = Inl (Error ''network'') \<and>
   field_of ''degraded'' (body (fst (handler tide_down))) \<noteq> JBool True \<and>
   keys (body (fst (handler tide_down))) = [''gulf'', ''bay'', ''waves'', ''sun'', ''tides'']"
  by code_simp

text \<open>
  The handler of part\_001 does not wrap the tide source: when the tide fetch rejects
  and the forecast has arrived, \<open>Promise.all\<close> rejects and the reply, still with status
  200, is the null report of the \<open>catch\<close>, without the buoy values that were fetched.
\<close>

theorem handler_001_tide_rejection:
  assumes "forecast_001 w = Inr sg" and "tides_001 w = Inl e"
  shows "handler_001 w = fatal_001 e \<and> statusCode (handler_001 w) = 200 \<and>
    field_of ''gulf'' (body (handler_001 w)) = JNull \<and>
    field_of ''bay'' (body (handler_001 w)) = JNull \<and>
    field_of ''usharborsOutdated'' (body (handler_001 w)) = JBool True"
  using assms by (simp add: handler_001_def getNoaaTides_def fatal_001_def Let_def)

theorem handler_001_tide_rejection_witness:
  "safeBuoy (buoy_001 tide_down_001 ''BZST2'') \<noteq> JNull \<and>
   statusCode (handler_001 tide_down_001) = 200 \<and>
   field_of ''gulf'' (body (handler_001 tide_down_001)) = JNull \<and>
   field_of ''usharborsOutdated'' (body (handler_001 tide_down_001)) = JBool True"
proof -
  have a: "forecast_001 tide_down_001 = Inr two_points"
    and b: "tides_001 tide_down_001 = Inl (Error ''network'')"
    by (simp_all add: tide_down_001_def)
  have c: "safeBuoy (buoy_001 tide_down_001 ''BZST2'') \<noteq> JNull"
    by (simp add: tide_down_001_def safeBuoy_def station_def)
  from handler_001_tide_rejection [OF a b] c show ?thesis by (simp add: fatal_001_def)
qed

end
